theory Spec2Isabelle
  imports Complex_Main "HOL-Library.Sublist"
begin

section \<open>JavaScript values shared by the modules\<close>

text \<open>
  A thrown JavaScript error is a value of one of the built-in classes, carrying its
  message; a \<^verbatim>\<open>throw\<close> is the left injection of a sum, a normal return the right one.
  \<^verbatim>\<open>new Error(...)\<close> makes an \<^verbatim>\<open>Error\<close>; \<^verbatim>\<open>SyntaxError\<close> is what \<^verbatim>\<open>JSON.parse\<close> raises,
  \<^verbatim>\<open>RangeError\<close> what \<^verbatim>\<open>BigInt\<close> raises on a number that is not an integer, and
  \<^verbatim>\<open>TypeError\<close> what a method call on \<^verbatim>\<open>null\<close> raises.  An error has the two properties
  \<^verbatim>\<open>message\<close> and \<^verbatim>\<open>name\<close>, the name being that of its class.
\<close>

datatype js_error = Error string | SyntaxError string | RangeError string | TypeError string

fun message :: "js_error \<Rightarrow> string" where
  "message (Error m) = m"
| "message (SyntaxError m) = m"
| "message (RangeError m) = m"
| "message (TypeError m) = m"


section \<open>secure-wallet.ts: PrefixedStorage\<close>

text \<open>
  The browser's \<^verbatim>\<open>localStorage\<close> is an ordered table of string keys and string values
  with no key twice; \<^verbatim>\<open>key(i)\<close> enumerates it.  \<^verbatim>\<open>setItem\<close> overwrites the value of a
  key that is present and appends a new entry otherwise.
\<close>

type_synonym local_storage = "(string \<times> string) list"

definition getItem :: "string \<Rightarrow> local_storage \<Rightarrow> string option" where
  "getItem k ls = map_of ls k"

fun setItem :: "string \<Rightarrow> string \<Rightarrow> local_storage \<Rightarrow> local_storage" where
  "setItem k v [] = [(k, v)]"
| "setItem k v (e # ls) = (if fst e = k then (k, v) # ls else e # setItem k v ls)"

definition removeItem :: "string \<Rightarrow> local_storage \<Rightarrow> local_storage" where
  "removeItem k ls = filter (\<lambda>e. fst e \<noteq> k) ls"

definition key :: "nat \<Rightarrow> local_storage \<Rightarrow> string option" where
  "key i ls = (if i < length ls then Some (fst (ls ! i)) else None)"

definition startsWith :: "string \<Rightarrow> string \<Rightarrow> bool" where
  "startsWith s p = (take (length p) s = p)"

text \<open>The storage key of \<^verbatim>\<open>key\<close> in the store with prefix \<^verbatim>\<open>prefix\<close>: \<^verbatim>\<open>`${this.prefix}:${key}`\<close>.\<close>

definition prefixed :: "string \<Rightarrow> string \<Rightarrow> string" where
  "prefixed p k = p @ '':'' @ k"

text \<open>
  \<^verbatim>\<open>JSON.stringify\<close> and \<^verbatim>\<open>JSON.parse\<close> are parameters of the store operations that use
  them; \<^verbatim>\<open>null\<close> is the stored type's null value.  \<^verbatim>\<open>get\<close> answers \<^verbatim>\<open>null\<close> for a missing
  key and for an empty stored string (both are falsy), and parses every other string.
\<close>

definition PrefixedStorage_get ::
  "(string \<Rightarrow> js_error + 'v) \<Rightarrow> 'v \<Rightarrow> string \<Rightarrow> string \<Rightarrow> local_storage \<Rightarrow> js_error + 'v" where
  "PrefixedStorage_get parse null p k ls =
     (case getItem (prefixed p k) ls of
        None \<Rightarrow> Inr null
      | Some v \<Rightarrow> if v = [] then Inr null else parse v)"

definition PrefixedStorage_set ::
  "('v \<Rightarrow> string) \<Rightarrow> string \<Rightarrow> string \<Rightarrow> 'v \<Rightarrow> local_storage \<Rightarrow> local_storage" where
  "PrefixedStorage_set stringify p k v ls = setItem (prefixed p k) (stringify v) ls"

definition PrefixedStorage_remove :: "string \<Rightarrow> string \<Rightarrow> local_storage \<Rightarrow> local_storage" where
  "PrefixedStorage_remove p k ls = removeItem (prefixed p k) ls"

text \<open>The loop of \<^verbatim>\<open>clear\<close>: it collects the keys that start with \<^verbatim>\<open>prefix:\<close>.\<close>

function clear_scan :: "string \<Rightarrow> local_storage \<Rightarrow> nat \<Rightarrow> string list \<Rightarrow> string list" where
  "clear_scan p ls i keysToDelete =
     (if i < length ls then
        (case key i ls of
           None \<Rightarrow> clear_scan p ls (i + 1) keysToDelete
         | Some k \<Rightarrow>
             if startsWith k (p @ '':'') then clear_scan p ls (i + 1) (keysToDelete @ [k])
             else clear_scan p ls (i + 1) keysToDelete)
      else keysToDelete)"
  by pat_completeness auto
termination
  by (relation "measure (\<lambda>(p, ls, i, acc). length ls - i)") auto

definition PrefixedStorage_clear :: "string \<Rightarrow> local_storage \<Rightarrow> local_storage" where
  "PrefixedStorage_clear p ls = fold removeItem (clear_scan p ls 0 []) ls"

text \<open>The loop of \<^verbatim>\<open>list\<close>: \<^verbatim>\<open>key.slice(this.prefix.length + 1)\<close> drops the prefix and the colon.\<close>

function list_scan :: "string \<Rightarrow> local_storage \<Rightarrow> nat \<Rightarrow> string list \<Rightarrow> string list" where
  "list_scan p ls i result =
     (if i < length ls then
        (case key i ls of
           None \<Rightarrow> list_scan p ls (i + 1) result
         | Some k \<Rightarrow>
             if startsWith k (p @ '':'') then list_scan p ls (i + 1) (result @ [drop (length p + 1) k])
             else list_scan p ls (i + 1) result)
      else result)"
  by pat_completeness auto
termination
  by (relation "measure (\<lambda>(p, ls, i, acc). length ls - i)") auto

definition PrefixedStorage_list :: "string \<Rightarrow> local_storage \<Rightarrow> string list" where
  "PrefixedStorage_list p ls = list_scan p ls 0 []"


section \<open>sdk.ts: the module-level SDK singleton\<close>

text \<open>
  A \<^verbatim>\<open>Vultisig\<close> object is told apart from every other by the number of the
  \<^verbatim>\<open>new Vultisig(...)\<close> that made it; \<^verbatim>\<open>wasm_loaded\<close> says whether its \<^verbatim>\<open>initialize()\<close>
  has completed.  The module state is the variable \<^verbatim>\<open>sdkInstance\<close> together with the
  count of constructions so far.
\<close>

record vultisig =
  serial :: nat
  storage :: "string option"
  passwordCache :: "nat option"
  wasm_loaded :: bool

record sdk_module =
  sdkInstance :: "vultisig option"
  constructed :: nat

definition PASSWORD_CACHE_TTL :: nat where
  "PASSWORD_CACHE_TTL = 5 * 60 * 1000"

definition sdk_module_initial :: sdk_module where
  "sdk_module_initial = \<lparr>sdkInstance = None, constructed = 0\<rparr>"

text \<open>
  \<^verbatim>\<open>initializeSDK\<close>: the first argument is how \<^verbatim>\<open>await sdkInstance.initialize()\<close> ends,
  \<^verbatim>\<open>None\<close> when it resolves and the error it rejects with otherwise.  The variable is
  assigned before the \<^verbatim>\<open>await\<close>.
\<close>

definition initializeSDK :: "js_error option \<Rightarrow> sdk_module \<Rightarrow> (js_error + vultisig) \<times> sdk_module" where
  "initializeSDK initialize_outcome m =
     (case sdkInstance m of
        Some inst \<Rightarrow> (Inr inst, m)
      | None \<Rightarrow>
          let inst = \<lparr>serial = constructed m, storage = None,
                       passwordCache = Some PASSWORD_CACHE_TTL, wasm_loaded = False\<rparr>;
              m1 = m\<lparr>sdkInstance := Some inst, constructed := constructed m + 1\<rparr>
          in (case initialize_outcome of
                Some err \<Rightarrow> (Inl err, m1)
              | None \<Rightarrow>
                  let inst' = inst\<lparr>wasm_loaded := True\<rparr>
                  in (Inr inst', m1\<lparr>sdkInstance := Some inst'\<rparr>)))"

definition getSDK :: "sdk_module \<Rightarrow> js_error + vultisig" where
  "getSDK m =
     (case sdkInstance m of
        None \<Rightarrow> Inl (Error ''SDK not initialized. Call initializeSDK() first.'')
      | Some inst \<Rightarrow> Inr inst)"

text \<open>\<^verbatim>\<open>getVaultById\<close> raises the module's other error of its own.\<close>

definition getVaultById :: "(string \<Rightarrow> 'vault option) \<Rightarrow> string \<Rightarrow> sdk_module \<Rightarrow> js_error + 'vault" where
  "getVaultById sdk_getVaultById ident m =
     (case getSDK m of
        Inl err \<Rightarrow> Inl err
      | Inr sdk \<Rightarrow>
          (case sdk_getVaultById ident of
             None \<Rightarrow> Inl (Error ''Vault not found'')
           | Some v \<Rightarrow> Inr v))"

section \<open>The password callbacks\<close>







section \<open>The SDK's vault interface\<close>

text \<open>
  A JavaScript number is a double: a real number, \<^verbatim>\<open>NaN\<close>, or one of the two infinities.
  An arithmetic operation on two numbers gives the exact result rounded to a double; the
  rounding (\<^verbatim>\<open>round_double\<close>, which may also overflow to an infinity) and \<^verbatim>\<open>parseFloat\<close>
  are parameters of the environment below.
\<close>

datatype js_number = Num real | NaN | PosInfinity | NegInfinity

text \<open>\<^verbatim>\<open>x || 0\<close> on a number or \<^verbatim>\<open>null\<close>: \<^verbatim>\<open>null\<close>, \<^verbatim>\<open>NaN\<close> and \<^verbatim>\<open>0\<close> are falsy.\<close>

fun or_zero :: "js_number option \<Rightarrow> js_number" where
  "or_zero None = Num 0"
| "or_zero (Some NaN) = Num 0"
| "or_zero (Some x) = x"

text \<open>\<^verbatim>\<open>Math.max(0, x)\<close>.\<close>

fun max_zero :: "js_number \<Rightarrow> js_number" where
  "max_zero (Num x) = Num (max 0 x)"
| "max_zero NaN = NaN"
| "max_zero PosInfinity = PosInfinity"
| "max_zero NegInfinity = Num 0"

text \<open>\<^verbatim>\<open>x - y\<close> and \<^verbatim>\<open>x * 1e9\<close>, given the rounding.\<close>

fun js_minus :: "(real \<Rightarrow> js_number) \<Rightarrow> js_number \<Rightarrow> js_number \<Rightarrow> js_number" where
  "js_minus rnd (Num x) (Num y) = rnd (x - y)"
| "js_minus rnd NaN y = NaN"
| "js_minus rnd x NaN = NaN"
| "js_minus rnd PosInfinity PosInfinity = NaN"
| "js_minus rnd NegInfinity NegInfinity = NaN"
| "js_minus rnd PosInfinity y = PosInfinity"
| "js_minus rnd NegInfinity y = NegInfinity"
| "js_minus rnd (Num x) PosInfinity = NegInfinity"
| "js_minus rnd (Num x) NegInfinity = PosInfinity"

fun times_1e9 :: "(real \<Rightarrow> js_number) \<Rightarrow> js_number \<Rightarrow> js_number" where
  "times_1e9 rnd (Num x) = rnd (x * 10 ^ 9)"
| "times_1e9 rnd x = x"

text \<open>
  \<^verbatim>\<open>BigInt(Math.floor(amountFloat * 1e9))\<close>: the floor of a double is a double, and
  \<^verbatim>\<open>BigInt\<close> raises on \<^verbatim>\<open>NaN\<close> and on the infinities.
\<close>

definition not_an_integer :: "string \<Rightarrow> js_error" where
  "not_an_integer shown_as =
     RangeError (''The number '' @ shown_as @ '' cannot be converted to a BigInt because it is not an integer'')"

fun BigInt_floor :: "js_number \<Rightarrow> js_error + int" where
  "BigInt_floor (Num y) = Inr \<lfloor>y\<rfloor>"
| "BigInt_floor NaN = Inl (not_an_integer ''NaN'')"
| "BigInt_floor PosInfinity = Inl (not_an_integer ''Infinity'')"
| "BigInt_floor NegInfinity = Inl (not_an_integer ''-Infinity'')"

record secure_vault =
  vault_id :: string
  vault_name :: string
  vault_type :: string

record coin =
  coin_chain :: string
  coin_address :: string
  decimals :: nat
  ticker :: string

type_synonym keysign_payload = string
type_synonym signature = string

text \<open>
  The environment of the pages: the engine's \<^verbatim>\<open>parseFloat\<close> and rounding to a double,
  the methods of an SDK vault that the pages call, each a function of its arguments that
  returns a value or the error it throws, and the pages' two helpers that reach outside
  (the QR library and the balance query, which answers \<^verbatim>\<open>null\<close> instead of throwing).
\<close>

record env =
  parseFloat :: "string \<Rightarrow> js_number"
  round_double :: "real \<Rightarrow> js_number"
  address :: "secure_vault \<Rightarrow> string \<Rightarrow> js_error + string"
  prepareSendTx :: "secure_vault \<Rightarrow> coin \<Rightarrow> string \<Rightarrow> int \<Rightarrow> js_error + keysign_payload"
  extractMessageHashes :: "secure_vault \<Rightarrow> keysign_payload \<Rightarrow> js_error + string list"
  sign :: "secure_vault \<Rightarrow> string \<Rightarrow> keysign_payload \<Rightarrow> string list \<Rightarrow> js_error + signature"
  broadcastTx :: "secure_vault \<Rightarrow> string \<Rightarrow> keysign_payload \<Rightarrow> signature \<Rightarrow> js_error + string"
  generateQRCode :: "string \<Rightarrow> js_error + string"
  fetchBalance :: "string \<Rightarrow> js_number option"

text \<open>The amount in base units, \<^verbatim>\<open>BigInt(Math.floor(amountFloat * 1e9))\<close>.\<close>

definition amountBaseUnits :: "env \<Rightarrow> js_number \<Rightarrow> js_error + int" where
  "amountBaseUnits e amountFloat = BigInt_floor (times_1e9 (round_double e) amountFloat)"

text \<open>
  The common start of a transfer on both pages: sender address, amount in base units,
  keysign payload, message hashes; the first error ends it.
\<close>

definition prepare ::
  "env \<Rightarrow> secure_vault \<Rightarrow> string \<Rightarrow> string \<Rightarrow> js_error + (string \<times> int \<times> keysign_payload \<times> string list)" where
  "prepare e v toAddr amt =
     (case address e v ''Solana'' of
        Inl err \<Rightarrow> Inl err
      | Inr senderAddress \<Rightarrow>
          (case amountBaseUnits e (parseFloat e amt) of
             Inl err \<Rightarrow> Inl err
           | Inr units \<Rightarrow>
               (case prepareSendTx e v
                       \<lparr>coin_chain = ''Solana'', coin_address = senderAddress, decimals = 9, ticker = ''SOL''\<rparr>
                       toAddr units of
                  Inl err \<Rightarrow> Inl err
                | Inr keysignPayload \<Rightarrow>
                    (case extractMessageHashes e v keysignPayload of
                       Inl err \<Rightarrow> Inl err
                     | Inr messageHashes \<Rightarrow> Inr (senderAddress, units, keysignPayload, messageHashes)))))"

text \<open>
  The amount field of both pages, \<^verbatim>\<open>(...)?.value || '0.001'\<close>: a missing field and an
  empty value give the default.
\<close>

definition amount_value :: "string option \<Rightarrow> string" where
  "amount_value amount_input =
     (case amount_input of
        None \<Rightarrow> ''0.001''
      | Some a \<Rightarrow> if a = [] then ''0.001'' else a)"

section \<open>secure-wallet.ts: the two simulated devices\<close>

datatype DeviceId = device_a | device_b

text \<open>
  The signing payload is the JSON text of an object with five fields; it is represented
  by that object.
\<close>

record signing_payload =
  sp_chain :: string
  sp_messageHashes :: "string list"
  sp_toAddress :: string
  sp_amount :: string
  sp_timestamp :: nat

record PendingTxRequest =
  fromDevice :: DeviceId
  toAddress :: string
  amount :: string
  chain :: string
  request_signingPayload :: signing_payload

record DeviceState =
  device_id :: DeviceId
  device_name :: string
  sdk :: "vultisig option"
  initialized :: bool
  vault :: "secure_vault option"
  vaultId :: "string option"
  solanaAddress :: "string option"
  balance :: "js_number option"
  status :: string
  error :: "string option"
  loading :: bool
  qrPayload :: "string option"
  devicesJoined :: nat
  devicesRequired :: nat
  signingPayload :: "signing_payload option"
  pendingTxRequest :: "PendingTxRequest option"

datatype shared_payload = keygen_qr string | signing_json signing_payload

datatype payload_type = keygen | signing

record AppState =
  activeDevice :: DeviceId
  deviceA :: DeviceState
  deviceB :: DeviceState
  sharedPayload :: "shared_payload option"
  sharedPayloadType :: "payload_type option"
  pendingTransaction :: "PendingTxRequest option"

definition createInitialDeviceState :: "DeviceId \<Rightarrow> string \<Rightarrow> DeviceState" where
  "createInitialDeviceState i n =
     \<lparr>device_id = i, device_name = n, sdk = None, initialized = False, vault = None,
      vaultId = None, solanaAddress = None, balance = None, status = ''Not initialized'',
      error = None, loading = False, qrPayload = None, devicesJoined = 0,
      devicesRequired = 2, signingPayload = None, pendingTxRequest = None\<rparr>"

definition initial_state :: AppState where
  "initial_state =
     \<lparr>activeDevice = device_a,
      deviceA = createInitialDeviceState device_a ''Device A (Initiator)'',
      deviceB = createInitialDeviceState device_b ''Device B (Joiner)'',
      sharedPayload = None, sharedPayloadType = None, pendingTransaction = None\<rparr>"

definition device :: "DeviceId \<Rightarrow> AppState \<Rightarrow> DeviceState" where
  "device i s = (if i = device_a then deviceA s else deviceB s)"

text \<open>\<^verbatim>\<open>setDeviceState\<close>: the partial update is the function that applies it.\<close>

definition setDeviceState :: "DeviceId \<Rightarrow> (DeviceState \<Rightarrow> DeviceState) \<Rightarrow> AppState \<Rightarrow> AppState" where
  "setDeviceState i updates s =
     (if i = device_a then s\<lparr>deviceA := updates (deviceA s)\<rparr>
      else s\<lparr>deviceB := updates (deviceB s)\<rparr>)"

text \<open>
  \<^verbatim>\<open>initiateTransaction\<close>.  \<^verbatim>\<open>now\<close> is \<^verbatim>\<open>Date.now()\<close>; the two inputs are the values of the
  form fields, \<^verbatim>\<open>None\<close> when the field is not on the page.  \<^verbatim>\<open>render()\<close> only rebuilds the
  page from the state and is left out.
\<close>

definition initiateTransaction ::
  "env \<Rightarrow> nat \<Rightarrow> DeviceId \<Rightarrow> string option \<Rightarrow> string option \<Rightarrow> AppState \<Rightarrow> AppState" where
  "initiateTransaction e now fromDeviceId toAddress_input amount_input s =
     (case vault (device fromDeviceId s) of
        None \<Rightarrow> s
      | Some v \<Rightarrow>
          let amt = amount_value amount_input
          in if toAddress_input = None \<or> toAddress_input = Some [] then
               setDeviceState fromDeviceId (\<lambda>d. d\<lparr>error := Some ''Please enter destination address''\<rparr>) s
             else
               let toAddr = the toAddress_input;
                   s1 = setDeviceState fromDeviceId
                          (\<lambda>d. d\<lparr>loading := True, status := ''Preparing transaction...'', error := None\<rparr>) s
               in (case prepare e v toAddr amt of
                     Inr (senderAddress, units, keysignPayload, messageHashes) \<Rightarrow>
                       let payload = \<lparr>sp_chain = ''Solana'', sp_messageHashes = messageHashes,
                                      sp_toAddress = toAddr, sp_amount = amt, sp_timestamp = now\<rparr>;
                           s2 = s1\<lparr>pendingTransaction :=
                                      Some \<lparr>fromDevice = fromDeviceId, toAddress = toAddr, amount = amt,
                                            chain = ''Solana'', request_signingPayload = payload\<rparr>,
                                   sharedPayload := Some (signing_json payload),
                                   sharedPayloadType := Some signing\<rparr>
                       in setDeviceState fromDeviceId
                            (\<lambda>d. d\<lparr>loading := False, status := ''Waiting for approval...'',
                                   signingPayload := Some payload\<rparr>) s2
                   | Inl err \<Rightarrow>
                       (setDeviceState fromDeviceId
                          (\<lambda>d. d\<lparr>loading := False, error := Some (message err),
                                 status := ''Transaction failed'', signingPayload := None\<rparr>) s1)
                         \<lparr>pendingTransaction := None, sharedPayload := None, sharedPayloadType := None\<rparr>))"

definition rejectTransaction :: "AppState \<Rightarrow> AppState" where
  "rejectTransaction s =
     (let s1 = s\<lparr>pendingTransaction := None, sharedPayload := None, sharedPayloadType := None\<rparr>;
          s2 = setDeviceState device_a
                 (\<lambda>d. d\<lparr>loading := False, status := ''Transaction rejected'', signingPayload := None\<rparr>) s1
      in setDeviceState device_b (\<lambda>d. d\<lparr>loading := False, status := ''Transaction rejected''\<rparr>) s2)"


text \<open>
  \<^verbatim>\<open>approveTransaction\<close>.  Its try block waits on three timers, sets fields of the state
  and redraws the page; none of these can raise, so the block always runs to its end and
  the catch block, which would mark both devices \<^verbatim>\<open>Signing failed\<close>, is never entered:
  it has no counterpart here.  \<^verbatim>\<open>rnd1\<close> and \<^verbatim>\<open>rnd2\<close> are the two strings cut from
  \<^verbatim>\<open>Math.random()\<close>; the literal \<^verbatim>\<open>0.000005\<close> is the engine's reading of that text.
\<close>

definition check_mark :: string where
  "check_mark = [CHR 0xE2, CHR 0x9C, CHR 0x93]"

text \<open>The device that did not approve: \<^verbatim>\<open>approverDeviceId === 'device-a' ? 'device-b' : 'device-a'\<close>.\<close>

definition initiatorId :: "DeviceId \<Rightarrow> DeviceId" where
  "initiatorId approverDeviceId = (if approverDeviceId = device_a then device_b else device_a)"

definition approve_try ::
  "env \<Rightarrow> string \<Rightarrow> string \<Rightarrow> DeviceId \<Rightarrow> DeviceId \<Rightarrow> DeviceState \<Rightarrow> PendingTxRequest \<Rightarrow>
   AppState \<Rightarrow> AppState" where
  "approve_try e rnd1 rnd2 approverDeviceId initiator dev pendingTx s =
     (let s1 = setDeviceState initiator (\<lambda>d. d\<lparr>status := ''Computing partial signature...''\<rparr>)
                 (setDeviceState approverDeviceId (\<lambda>d. d\<lparr>status := ''Computing partial signature...''\<rparr>) s);
          s2 = setDeviceState initiator (\<lambda>d. d\<lparr>status := ''Combining signatures...''\<rparr>)
                 (setDeviceState approverDeviceId (\<lambda>d. d\<lparr>status := ''Combining signatures...''\<rparr>) s1);
          mockTxHash = rnd1 @ ''...'' @ rnd2;
          s3 = setDeviceState approverDeviceId
                 (\<lambda>d. d\<lparr>loading := False, status := check_mark @ '' Transaction signed & sent!''\<rparr>) s2;
          s4 = setDeviceState initiator
                 (\<lambda>d. d\<lparr>loading := False, status := check_mark @ '' Tx: '' @ mockTxHash,
                        signingPayload := None\<rparr>) s3;
          newBalance = js_minus (round_double e)
                         (js_minus (round_double e) (or_zero (balance dev)) (parseFloat e (amount pendingTx)))
                         (parseFloat e ''0.000005'');
          s5 = setDeviceState device_a (\<lambda>d. d\<lparr>balance := Some (max_zero newBalance)\<rparr>) s4;
          s6 = setDeviceState device_b (\<lambda>d. d\<lparr>balance := Some (max_zero newBalance)\<rparr>) s5
      in s6\<lparr>pendingTransaction := None, sharedPayload := None, sharedPayloadType := None\<rparr>)"

definition approveTransaction ::
  "env \<Rightarrow> string \<Rightarrow> string \<Rightarrow> DeviceId \<Rightarrow> AppState \<Rightarrow> AppState" where
  "approveTransaction e rnd1 rnd2 approverDeviceId s =
     (let dev = device approverDeviceId s;
          initiator = initiatorId approverDeviceId
      in case vault dev of
           None \<Rightarrow> s
         | Some v \<Rightarrow>
             (case pendingTransaction s of
                None \<Rightarrow> s
              | Some pendingTx \<Rightarrow>
                  let s1 = setDeviceState approverDeviceId
                             (\<lambda>d. d\<lparr>loading := True, status := ''Joining MPC signing session...'',
                                    error := None\<rparr>) s;
                      s2 = setDeviceState initiator
                             (\<lambda>d. d\<lparr>status := ''Other device joined! MPC signing in progress...''\<rparr>) s1
                  in approve_try e rnd1 rnd2 approverDeviceId initiator dev pendingTx s2))"

text \<open>The timer that \<^verbatim>\<open>approveTransaction\<close> leaves behind on success fires five seconds later.\<close>

definition approve_status_reset :: "AppState \<Rightarrow> AppState" where
  "approve_status_reset s =
     setDeviceState device_b (\<lambda>d. d\<lparr>status := ''Vault ready''\<rparr>)
       (setDeviceState device_a (\<lambda>d. d\<lparr>status := ''Vault ready''\<rparr>) s)"



section \<open>The multi-device page (real SDK signing)\<close>

text \<open>
  The page keeps one state object; its fields carry the prefix \<open>md_\<close> here, since the
  simulated page's device state uses the same names.
\<close>

datatype step = step_loading | step_home | step_create_vault | step_wallet | step_signing

record debug_info =
  di_sessionId :: string
  di_localPartyId :: string
  di_vaultPublicKey :: string
  di_toAddress :: string
  di_toAmount :: int
  di_senderAddress :: string
  di_compressedDataLength :: nat
  di_qrUrlLength :: nat

record md_state =
  md_step :: step
  md_sdk :: "vultisig option"
  md_initialized :: bool
  md_vault :: "secure_vault option"
  md_vaultId :: "string option"
  md_solanaAddress :: "string option"
  md_balance :: "js_number option"
  md_loading :: bool
  md_error :: "string option"
  md_status :: string
  md_qrCodeDataUrl :: "string option"
  md_qrPayload :: "string option"
  md_devicesJoined :: nat
  md_devicesRequired :: nat
  md_signingInProgress :: bool
  md_txHash :: "string option"
  md_debugInfo :: "debug_info option"

text \<open>
  While \<^verbatim>\<open>vault.sign\<close> runs, the SDK calls the two callbacks the page gave it.
  \<^verbatim>\<open>onQRCodeReady\<close> is asynchronous: it stores the payload at once (\<open>QRCodeReady\<close>) and
  the rest of it runs when \<^verbatim>\<open>generateQRCode\<close> has settled (\<open>QRCodeDrawn\<close>), which may be
  any time later, also after \<^verbatim>\<open>sendTransaction\<close> has ended; if \<^verbatim>\<open>generateQRCode\<close> throws,
  the rest does not run.  \<open>DeviceJoined\<close> is \<^verbatim>\<open>onDeviceJoined\<close>.  Decimal printing of the
  two counts in the status line is a parameter (\<open>show\<close>).
\<close>

datatype sign_event = QRCodeReady string | QRCodeDrawn string | DeviceJoined string nat nat

fun on_sign_event ::
  "env \<Rightarrow> (nat \<Rightarrow> string) \<Rightarrow> string \<Rightarrow> int \<Rightarrow> string \<Rightarrow> sign_event \<Rightarrow> md_state \<Rightarrow> md_state" where
  "on_sign_event e show toAddr units senderAddress (QRCodeReady payload) s =
     s\<lparr>md_qrPayload := Some payload\<rparr>"
| "on_sign_event e show toAddr units senderAddress (QRCodeDrawn payload) s =
     (case generateQRCode e payload of
        Inl err \<Rightarrow> s
      | Inr url \<Rightarrow>
          s\<lparr>md_qrCodeDataUrl := Some url,
            md_status := ''Scan QR code with Vultisig app to approve'',
            md_debugInfo := Some
              \<lparr>di_sessionId = ''SDK-managed'', di_localPartyId = ''SDK-managed'',
               di_vaultPublicKey = (case md_vault s of None \<Rightarrow> [] | Some v \<Rightarrow> vault_id v),
               di_toAddress = toAddr, di_toAmount = units, di_senderAddress = senderAddress,
               di_compressedDataLength = length payload, di_qrUrlLength = length payload\<rparr>\<rparr>)"
| "on_sign_event e show toAddr units senderAddress (DeviceJoined deviceId totalJoined required) s =
     s\<lparr>md_devicesJoined := totalJoined, md_devicesRequired := required,
       md_status := show totalJoined @ ''/'' @ show required @ '' devices joined - signing in progress...''\<rparr>"

text \<open>
  \<^verbatim>\<open>sendTransaction\<close> suspends at \<^verbatim>\<open>await state.vault.sign(...)\<close> and page events can run
  before it resumes, so it is given in two halves.  \<^verbatim>\<open>send_begin\<close> is the function up to
  the call of \<^verbatim>\<open>sign\<close>: it ends at once (no vault, no destination, or an error of the
  preparation, which runs the catch and finally blocks) or it awaits the signature.
\<close>

definition send_finally :: "(js_error \<times> md_state) + md_state \<Rightarrow> md_state" where
  "send_finally r =
     (let s2 = (case r of
                  Inr s' \<Rightarrow> s'
                | Inl (err, s') \<Rightarrow>
                    s'\<lparr>md_error := Some (message err), md_status := ''Transaction failed''\<rparr>)
      in s2\<lparr>md_loading := False, md_signingInProgress := False, md_step := step_wallet,
            md_qrCodeDataUrl := None, md_qrPayload := None, md_debugInfo := None\<rparr>)"

datatype send_progress =
    Done md_state
  | Awaiting_sign secure_vault string string int keysign_payload "string list" md_state

definition send_prepare ::
  "env \<Rightarrow> secure_vault \<Rightarrow> string \<Rightarrow> string \<Rightarrow> md_state \<Rightarrow> send_progress" where
  "send_prepare e v toAddr amt s =
     (case address e v ''Solana'' of
        Inl err \<Rightarrow> Done (send_finally (Inl (err, s)))
      | Inr senderAddress \<Rightarrow>
          (case amountBaseUnits e (parseFloat e amt) of
             Inl err \<Rightarrow> Done (send_finally (Inl (err, s)))
           | Inr units \<Rightarrow>
               let s1 = s\<lparr>md_status := ''Preparing transaction payload...''\<rparr>
               in (case prepareSendTx e v
                          \<lparr>coin_chain = ''Solana'', coin_address = senderAddress, decimals = 9, ticker = ''SOL''\<rparr>
                          toAddr units of
                     Inl err \<Rightarrow> Done (send_finally (Inl (err, s1)))
                   | Inr keysignPayload \<Rightarrow>
                       (case extractMessageHashes e v keysignPayload of
                          Inl err \<Rightarrow> Done (send_finally (Inl (err, s1)))
                        | Inr messageHashes \<Rightarrow>
                            Awaiting_sign v toAddr senderAddress units keysignPayload messageHashes
                              (s1\<lparr>md_status := ''Waiting for QR code from SDK...''\<rparr>)))))"

definition send_begin :: "env \<Rightarrow> string option \<Rightarrow> string option \<Rightarrow> md_state \<Rightarrow> send_progress" where
  "send_begin e toAddress_input amount_input s =
     (if md_vault s = None \<or> md_sdk s = None then Done s
      else
        let amt = amount_value amount_input
        in if toAddress_input = None \<or> toAddress_input = Some [] then
             Done (s\<lparr>md_error := Some ''Please enter a destination address''\<rparr>)
           else
             send_prepare e (the (md_vault s)) (the toAddress_input) amt
               (s\<lparr>md_loading := True, md_signingInProgress := True, md_step := step_signing,
                  md_status := ''Preparing transaction...'', md_error := None,
                  md_qrCodeDataUrl := None, md_qrPayload := None, md_txHash := None,
                  md_debugInfo := None\<rparr>))"

text \<open>
  \<^verbatim>\<open>send_resume\<close> is the rest of the function, from the moment \<^verbatim>\<open>sign\<close> settles with a
  signature or an error, run on the page state of that moment: broadcast, refresh the
  balance, then the catch and finally blocks.  The broadcast is a method call on
  \<^verbatim>\<open>state.vault\<close> as it is then; on \<^verbatim>\<open>null\<close> it raises a \<^verbatim>\<open>TypeError\<close>.
\<close>

definition broadcast_on_null :: js_error where
  "broadcast_on_null =
     TypeError (''Cannot read properties of null (reading '' @ [CHR 0x27] @ ''broadcastTx'' @ [CHR 0x27] @ '')'')"

definition send_resume ::
  "env \<Rightarrow> string \<Rightarrow> keysign_payload \<Rightarrow> js_error + signature \<Rightarrow> md_state \<Rightarrow> md_state" where
  "send_resume e senderAddress keysignPayload sign_outcome s =
     send_finally
       (case sign_outcome of
          Inl err \<Rightarrow> Inl (err, s)
        | Inr sig \<Rightarrow>
            let s1 = s\<lparr>md_status := ''Broadcasting transaction...'', md_qrCodeDataUrl := None\<rparr>
            in (case md_vault s1 of
                  None \<Rightarrow> Inl (broadcast_on_null, s1)
                | Some v \<Rightarrow>
                    (case broadcastTx e v ''Solana'' keysignPayload sig of
                       Inl err \<Rightarrow> Inl (err, s1)
                     | Inr txHash \<Rightarrow>
                         Inr (s1\<lparr>md_txHash := Some txHash, md_status := ''Transaction sent!'',
                                 md_balance := fetchBalance e senderAddress\<rparr>))))"

text \<open>
  A run of \<^verbatim>\<open>sendTransaction\<close> that no page event interrupts: the callback steps that
  happen while it waits for the signature run first, in order, then the function resumes
  with what \<^verbatim>\<open>sign\<close> returned.  A \<open>QRCodeDrawn\<close> that is still outstanding when the
  function ends runs on the state it leaves (\<open>on_sign_event\<close> applied to the result).
\<close>

definition sendTransaction ::
  "env \<Rightarrow> (nat \<Rightarrow> string) \<Rightarrow> sign_event list \<Rightarrow> string option \<Rightarrow> string option \<Rightarrow> md_state \<Rightarrow> md_state" where
  "sendTransaction e show events toAddress_input amount_input s =
     (case send_begin e toAddress_input amount_input s of
        Done s' \<Rightarrow> s'
      | Awaiting_sign v toAddr senderAddress units keysignPayload messageHashes s' \<Rightarrow>
          send_resume e senderAddress keysignPayload
            (sign e v ''Solana'' keysignPayload messageHashes)
            (fold (on_sign_event e show toAddr units senderAddress) events s'))"

definition cancelSigning :: "md_state \<Rightarrow> md_state" where
  "cancelSigning s =
     s\<lparr>md_step := step_wallet, md_status := ''Wallet ready'', md_loading := False,
       md_signingInProgress := False, md_qrCodeDataUrl := None, md_qrPayload := None,
       md_debugInfo := None\<rparr>"



section \<open>Example states and an example environment\<close>

text \<open>
  Concrete inputs for the examples that accompany the theorems: a 2-of-2 vault held by
  both simulated devices, the multi-device page in its wallet step with the same vault,
  and an SDK whose calls all succeed.  The example \<^verbatim>\<open>parseFloat\<close> knows the three amounts
  the examples use, and the example rounding leaves a result as it is, which is what
  double arithmetic does on the products the examples form (0, -1 and 0.001 times 1e9
  are 0, -1000000000 and 1000000 in doubles too).
\<close>

definition example_vault :: secure_vault where
  "example_vault = \<lparr>vault_id = ''vault-1'', vault_name = ''Shared Secure Vault'', vault_type = ''secure''\<rparr>"

definition example_device :: "DeviceId \<Rightarrow> string \<Rightarrow> string \<Rightarrow> DeviceState" where
  "example_device i n pfx =
     (createInitialDeviceState i n)
       \<lparr>sdk := Some \<lparr>serial = 0, storage = Some pfx, passwordCache = None, wasm_loaded = True\<rparr>,
        initialized := True, vault := Some example_vault, vaultId := Some ''vault-1'',
        solanaAddress := Some ''SenderAddr'', balance := Some (Num 1), status := ''Vault ready''\<rparr>"

definition example_ready :: AppState where
  "example_ready =
     \<lparr>activeDevice = device_a,
      deviceA = example_device device_a ''Device A (Initiator)'' ''device-a'',
      deviceB = example_device device_b ''Device B (Joiner)'' ''device-b'',
      sharedPayload = None, sharedPayloadType = None, pendingTransaction = None\<rparr>"

definition example_md :: md_state where
  "example_md =
     \<lparr>md_step = step_wallet,
      md_sdk = Some \<lparr>serial = 0, storage = None, passwordCache = None, wasm_loaded = True\<rparr>,
      md_initialized = True, md_vault = Some example_vault, md_vaultId = Some ''vault-1'',
      md_solanaAddress = Some ''SenderAddr'', md_balance = Some (Num 1), md_loading = False,
      md_error = None, md_status = ''Wallet ready'', md_qrCodeDataUrl = None, md_qrPayload = None,
      md_devicesJoined = 0, md_devicesRequired = 2, md_signingInProgress = False,
      md_txHash = None, md_debugInfo = None\<rparr>"

text \<open>The multi-device page while a \<^verbatim>\<open>sendTransaction\<close> to \<^verbatim>\<open>addrX\<close> awaits the signature.\<close>

definition example_md_signing :: md_state where
  "example_md_signing =
     example_md\<lparr>md_loading := True, md_signingInProgress := True, md_step := step_signing,
                md_status := ''Waiting for QR code from SDK...'', md_error := None,
                md_qrCodeDataUrl := None, md_qrPayload := None, md_txHash := None,
                md_debugInfo := None\<rparr>"

definition example_env :: env where
  "example_env =
     \<lparr>parseFloat = (\<lambda>a. if a = ''0.001'' then Num 0.001 else if a = ''0'' then Num 0
                         else if a = ''-1'' then Num (- 1) else NaN),
      round_double = Num,
      address = (\<lambda>v c. Inr ''SenderAddr''),
      prepareSendTx = (\<lambda>v c receiver units. Inr (''payload-for-'' @ receiver)),
      extractMessageHashes = (\<lambda>v keysignPayload. Inr [''hash-of-'' @ keysignPayload]),
      sign = (\<lambda>v c keysignPayload hashes. Inr ''signature-from-sdk''),
      broadcastTx = (\<lambda>v c keysignPayload sig. Inr ''tx-1''),
      generateQRCode = (\<lambda>payload. Inr (''data:image/png;'' @ payload)),
      fetchBalance = (\<lambda>a. Some (Num 1))\<rparr>"

section \<open>The SDK's local store, from the specification\<close>

text \<open>
  Modelled from the spec: the store behind \<^verbatim>\<open>sdk.deleteVault\<close> is inside the external
  SDK.  Sections 4.2 and 4.5 of the specification give it two parts: the Key-Share Store,
  which holds at most one share for a pair of vault id and participant id and has
  \<open>get\<close> and \<open>delete\<close>, and the Vault Registry with \<open>find\<close> and \<open>remove\<close>.
\<close>

record sdk_store =
  key_shares :: "((string \<times> string) \<times> string) list"
  registry :: "secure_vault list"


text \<open>Modelled from the spec: \<open>delete(vaultId, participantId)\<close> of the Key-Share Store.\<close>

definition KeyShareStore_delete :: "string \<Rightarrow> string \<Rightarrow> sdk_store \<Rightarrow> sdk_store" where
  "KeyShareStore_delete vid participantId st =
     st\<lparr>key_shares := filter (\<lambda>entry. fst entry \<noteq> (vid, participantId)) (key_shares st)\<rparr>"


text \<open>Modelled from the spec: \<open>remove(id)\<close> of the Vault Registry.\<close>

definition VaultRegistry_remove :: "string \<Rightarrow> sdk_store \<Rightarrow> sdk_store" where
  "VaultRegistry_remove ident st = st\<lparr>registry := filter (\<lambda>v. vault_id v \<noteq> ident) (registry st)\<rparr>"

text \<open>
  Modelled from the spec: \<open>deleteVault(vault)\<close> of section 4.4 on the device of
  \<open>participantId\<close>, which deletes the local key share and the registry entry, and fails
  with \<open>StoreIOError\<close>, leaving the store as it is, when the persistence underneath fails.
\<close>

definition Coordinator_deleteVault ::
  "bool \<Rightarrow> string \<Rightarrow> secure_vault \<Rightarrow> sdk_store \<Rightarrow> js_error option \<times> sdk_store" where
  "Coordinator_deleteVault persistence_ok participantId v st =
     (if persistence_ok
      then (None, VaultRegistry_remove (vault_id v) (KeyShareStore_delete (vault_id v) participantId st))
      else (Some (Error ''StoreIOError''), st))"


section \<open>The keygen ceremony of the specification\<close>

text \<open>
  Modelled from the spec: the ceremony state machine runs inside the external SDK
  (\<^verbatim>\<open>createSecureVault\<close> and \<^verbatim>\<open>joinSecureVault\<close> of \<^verbatim>\<open>@vultisig/sdk\<close>); the pages only pass
  the device count and display the counts the SDK reports.  The session and its phases
  follow sections 3 and 4.3 of the specification: a session accepts a join only while it
  awaits participants and fewer than \<open>required\<close> have joined, the joined participants
  form a set, and it moves to \<open>computing\<close> when the joined count reaches \<open>required\<close>.
\<close>

datatype phase = awaiting_participants | computing | finalizing | completed | aborted

datatype ceremony_kind = keygen_ceremony | sign_ceremony

record CeremonySession =
  session_id :: string
  kind :: ceremony_kind
  required :: nat
  joined :: "string list"
  session_phase :: phase

text \<open>Modelled from the spec: a session as \<^verbatim>\<open>createVault\<close> starts it, with nobody joined.\<close>

definition start_ceremony :: "string \<Rightarrow> ceremony_kind \<Rightarrow> nat \<Rightarrow> CeremonySession" where
  "start_ceremony sid k n =
     \<lparr>session_id = sid, kind = k, required = n, joined = [], session_phase = awaiting_participants\<rparr>"

text \<open>
  Modelled from the spec: a join.  A participant who has already joined is not counted
  again; a join outside \<open>awaiting-participants\<close> is not accepted.
\<close>

definition join :: "string \<Rightarrow> CeremonySession \<Rightarrow> CeremonySession" where
  "join p c =
     (if session_phase c = awaiting_participants \<and> length (joined c) < required c \<and> p \<notin> set (joined c)
      then let js = joined c @ [p]
           in c\<lparr>joined := js,
                session_phase := (if length js = required c then computing else awaiting_participants)\<rparr>
      else c)"

text \<open>
  Modelled from the spec: the events that move a ceremony.  The rounds of \<open>computing\<close>
  end in \<open>finalizing\<close>, finalizing ends in \<open>completed\<close>; a disconnect of a joined
  participant during \<open>computing\<close> aborts, and so does a cancellation while awaiting
  participants or computing; \<open>completed\<close> and \<open>aborted\<close> are terminal.
\<close>

datatype ceremony_event = Join string | Rounds_done | Finalized | Disconnect string | Cancel

fun ceremony_step :: "CeremonySession \<Rightarrow> ceremony_event \<Rightarrow> CeremonySession" where
  "ceremony_step c (Join p) = join p c"
| "ceremony_step c Rounds_done =
     (if session_phase c = computing then c\<lparr>session_phase := finalizing\<rparr> else c)"
| "ceremony_step c Finalized =
     (if session_phase c = finalizing then c\<lparr>session_phase := completed\<rparr> else c)"
| "ceremony_step c (Disconnect p) =
     (if session_phase c = computing \<and> p \<in> set (joined c)
      then c\<lparr>session_phase := aborted\<rparr> else c)"
| "ceremony_step c Cancel =
     (if session_phase c = awaiting_participants \<or> session_phase c = computing
      then c\<lparr>session_phase := aborted\<rparr> else c)"

text \<open>Modelled from the spec: a ceremony run through a sequence of events.\<close>

definition run_ceremony :: "CeremonySession \<Rightarrow> ceremony_event list \<Rightarrow> CeremonySession" where
  "run_ceremony c evs = foldl ceremony_step c evs"


text \<open>
  Modelled from the spec: the invariant of a session (section 3).  The joined participants
  are distinct and never more than \<open>required\<close>; fewer while the session awaits
  participants, exactly \<open>required\<close> from \<open>computing\<close> on.
\<close>

definition ceremony_inv :: "CeremonySession \<Rightarrow> bool" where
  "ceremony_inv c \<longleftrightarrow>
     distinct (joined c) \<and> length (joined c) \<le> required c \<and>
     (session_phase c = awaiting_participants \<longrightarrow> length (joined c) < required c) \<and>
     (session_phase c \<in> {computing, finalizing, completed} \<longrightarrow> length (joined c) = required c)"

text \<open>
  Modelled from the spec: what a ceremony leaves with its participants (section 4.3).
  Finalizing a keygen persists, for each participant, the key share bound to the vault
  and that participant; finalizing a signing releases the signature of the session's
  request to each participant.  Nothing is persisted or released at any other moment.
\<close>

datatype artifact = KeyShare string string | ReleasedSignature string

text \<open>
  Modelled from the spec: a ceremony together with what its participants hold, each
  artifact listed with the participant who holds it.
\<close>

record ceremony_world =
  session :: CeremonySession
  held :: "(string \<times> artifact) list"

text \<open>Modelled from the spec: the artifacts of a ceremony that completes.\<close>

definition finalize_artifacts :: "CeremonySession \<Rightarrow> (string \<times> artifact) list" where
  "finalize_artifacts c =
     map (\<lambda>p. (p, (case kind c of
                     keygen_ceremony \<Rightarrow> KeyShare (session_id c) p
                   | sign_ceremony \<Rightarrow> ReleasedSignature (session_id c))))
         (joined c)"

text \<open>
  Modelled from the spec: one event in the world of a ceremony.  The session moves as
  above; the artifacts appear when finalizing ends in \<open>completed\<close>.
\<close>

definition world_step :: "ceremony_world \<Rightarrow> ceremony_event \<Rightarrow> ceremony_world" where
  "world_step w ev =
     (let c = ceremony_step (session w) ev
      in \<lparr>session = c,
          held = (if session_phase (session w) = finalizing \<and> session_phase c = completed
                  then held w @ finalize_artifacts c else held w)\<rparr>)"


text \<open>Modelled from the spec: the world of a ceremony run through a sequence of events.\<close>

definition run_world :: "ceremony_world \<Rightarrow> ceremony_event list \<Rightarrow> ceremony_world" where
  "run_world w evs = foldl world_step w evs"

section \<open>Properties of PrefixedStorage\<close>

declare clear_scan.simps [simp del] list_scan.simps [simp del]

lemma startsWith_prefix: "startsWith s p \<longleftrightarrow> prefix p s"
  by (auto simp: startsWith_def prefix_def) (metis append_eq_conv_conj)

lemma clear_scan_filter:
  "clear_scan p ls i acc = acc @ filter (\<lambda>k. startsWith k (p @ '':'')) (map fst (drop i ls))"
proof (induction p ls i acc rule: clear_scan.induct)
  case (1 p ls i acc)
  show ?case
  proof (cases "i < length ls")
    case True
    then have d: "drop i ls = (ls ! i) # drop (Suc i) ls"
      by (simp add: Cons_nth_drop_Suc)
    from True have k: "key i ls = Some (fst (ls ! i))" by (simp add: key_def)
    show ?thesis
      using True 1 k d by (subst clear_scan.simps) simp
  next
    case False
    then show ?thesis by (subst clear_scan.simps) simp
  qed
qed

lemma list_scan_filter:
  "list_scan p ls i acc =
     acc @ map (drop (length p + 1)) (filter (\<lambda>k. startsWith k (p @ '':'')) (map fst (drop i ls)))"
proof (induction p ls i acc rule: list_scan.induct)
  case (1 p ls i acc)
  show ?case
  proof (cases "i < length ls")
    case True
    then have d: "drop i ls = (ls ! i) # drop (Suc i) ls"
      by (simp add: Cons_nth_drop_Suc)
    from True have k: "key i ls = Some (fst (ls ! i))" by (simp add: key_def)
    show ?thesis
      using True 1 k d by (subst list_scan.simps) simp
  next
    case False
    then show ?thesis by (subst list_scan.simps) simp
  qed
qed

lemma fold_removeItem: "fold removeItem ks ls = filter (\<lambda>e. fst e \<notin> set ks) ls"
  by (induction ks arbitrary: ls) (auto simp: removeItem_def intro: filter_cong)

lemma clear_eq:
  "PrefixedStorage_clear p ls = filter (\<lambda>e. \<not> startsWith (fst e) (p @ '':'')) ls"
  unfolding PrefixedStorage_clear_def fold_removeItem clear_scan_filter
  by (rule filter_cong) auto

lemma list_eq:
  "PrefixedStorage_list p ls =
     map (drop (length p + 1)) (filter (\<lambda>k. startsWith k (p @ '':'')) (map fst ls))"
  unfolding PrefixedStorage_list_def list_scan_filter by simp

lemma map_of_setItem: "map_of (setItem k v ls) = (map_of ls)(k \<mapsto> v)"
  by (induction ls) (auto simp: fun_eq_iff)

lemma keys_setItem:
  "map fst (setItem k v ls) = (if k \<in> fst ` set ls then map fst ls else map fst ls @ [k])"
  by (induction ls) auto

lemma map_of_removeItem: "map_of (removeItem k ls) = (map_of ls)(k := None)"
  unfolding removeItem_def by (induction ls) (auto simp: fun_eq_iff)

lemma prefixed_disjoint:
  assumes "\<not> startsWith q p" "\<not> startsWith p q"
  shows "\<not> startsWith (prefixed p k) (q @ '':'')"
proof
  assume "startsWith (prefixed p k) (q @ '':'')"
  then have "prefix (q @ '':'') (p @ '':'' @ k)" by (simp add: startsWith_prefix prefixed_def)
  then have "prefix q (p @ '':'' @ k)" using append_prefixD by blast
  moreover have "prefix p (p @ '':'' @ k)" by simp
  ultimately have "prefix q p \<or> prefix p q" using prefix_same_cases by blast
  with assms show False by (simp add: startsWith_prefix)
qed

lemma both_prefixes:
  assumes "\<not> startsWith q p" "\<not> startsWith p q" "startsWith s (p @ '':'')"
  shows "\<not> startsWith s (q @ '':'')"
proof
  assume "startsWith s (q @ '':'')"
  then have "prefix q s" using append_prefixD by (auto simp: startsWith_prefix)
  moreover have "prefix p s" using assms(3) append_prefixD by (auto simp: startsWith_prefix)
  ultimately have "prefix q p \<or> prefix p q" using prefix_same_cases by blast
  with assms show False by (simp add: startsWith_prefix)
qed


lemma get_setItem_other:
  "k' \<noteq> k \<Longrightarrow> getItem k' (setItem k v ls) = getItem k' ls"
  by (simp add: getItem_def map_of_setItem)

lemma get_removeItem_other:
  "k' \<noteq> k \<Longrightarrow> getItem k' (removeItem k ls) = getItem k' ls"
  by (simp add: getItem_def map_of_removeItem)

lemma getItem_filter:
  "P k \<Longrightarrow> getItem k (filter (\<lambda>e. P (fst e)) ls) = getItem k ls"
  unfolding getItem_def by (induction ls) auto

lemma prefixed_startsWith: "startsWith (prefixed p k) (p @ '':'')"
  by (simp add: startsWith_def prefixed_def)

lemma prefixed_neq:
  assumes "\<not> startsWith q p" "\<not> startsWith p q"
  shows "prefixed q k' \<noteq> prefixed p k"
  using prefixed_disjoint [OF assms, of k] prefixed_startsWith [of q k'] by auto

lemma keys_filter_setItem:
  "\<not> P k \<Longrightarrow> filter P (map fst (setItem k v ls)) = filter P (map fst ls)"
  by (simp add: keys_setItem)

lemma keys_filter_removeItem:
  "\<not> P k \<Longrightarrow> filter P (map fst (removeItem k ls)) = filter P (map fst ls)"
  unfolding removeItem_def by (induction ls) auto

lemma keys_filter_filter:
  "(\<And>s. P s \<Longrightarrow> Q s) \<Longrightarrow>
   filter P (map fst (filter (\<lambda>e. Q (fst e)) ls)) = filter P (map fst ls)"
  by (induction ls) auto

lemma list_mem:
  "k \<in> set (PrefixedStorage_list p ls) \<longleftrightarrow> getItem (prefixed p k) ls \<noteq> None"
proof -
  have "k \<in> set (PrefixedStorage_list p ls) \<longleftrightarrow>
        (\<exists>s \<in> fst ` set ls. startsWith s (p @ '':'') \<and> drop (length p + 1) s = k)"
    unfolding list_eq by auto
  also have "\<dots> \<longleftrightarrow> prefixed p k \<in> fst ` set ls"
  proof
    assume "\<exists>s \<in> fst ` set ls. startsWith s (p @ '':'') \<and> drop (length p + 1) s = k"
    then obtain s where s: "s \<in> fst ` set ls" "startsWith s (p @ '':'')" "drop (length p + 1) s = k"
      by blast
    from s(2) have "take (length p + 1) s = p @ '':''" by (simp add: startsWith_def)
    then have "s = (p @ '':'') @ drop (length p + 1) s"
      by (metis append_take_drop_id)
    with s(3) have "s = prefixed p k" by (simp add: prefixed_def)
    with s(1) show "prefixed p k \<in> fst ` set ls" by simp
  next
    assume "prefixed p k \<in> fst ` set ls"
    moreover have "drop (length p + 1) (prefixed p k) = k" by (simp add: prefixed_def)
    ultimately show "\<exists>s \<in> fst ` set ls. startsWith s (p @ '':'') \<and> drop (length p + 1) s = k"
      using prefixed_startsWith by blast
  qed
  also have "\<dots> \<longleftrightarrow> getItem (prefixed p k) ls \<noteq> None"
    by (simp add: getItem_def map_of_eq_None_iff)
  finally show ?thesis .
qed

text \<open>
  Claim C9.  In a store with prefix \<open>p\<close>, \<^verbatim>\<open>get\<close> after \<^verbatim>\<open>set\<close> of a value that survives the
  JSON round trip returns that value.  For a second store whose prefix \<open>q\<close> differs from
  \<open>p\<close> with neither a prefix of the other, \<^verbatim>\<open>set\<close>, \<^verbatim>\<open>remove\<close> and \<^verbatim>\<open>clear\<close> on the first
  store change nothing that \<^verbatim>\<open>get\<close> and \<^verbatim>\<open>list\<close> of the second observe.  \<^verbatim>\<open>clear\<close> removes
  exactly the entries whose key starts with \<open>p:\<close>, and \<^verbatim>\<open>list\<close> returns exactly the keys
  that start with \<open>p:\<close>, with that prefix cut off: a key is listed if and only if the
  store holds an entry for it.
\<close>

theorem PrefixedStorage_roundtrip_and_isolation:
  assumes rt: "parse (stringify v) = Inr v" "stringify v \<noteq> []"
      and inc: "p \<noteq> q" "\<not> startsWith q p" "\<not> startsWith p q"
  shows
   "PrefixedStorage_get parse null p k (PrefixedStorage_set stringify p k v ls) = Inr v
    \<and> PrefixedStorage_get parse null q k' (PrefixedStorage_set stringify p k v ls)
        = PrefixedStorage_get parse null q k' ls
    \<and> PrefixedStorage_list q (PrefixedStorage_set stringify p k v ls) = PrefixedStorage_list q ls
    \<and> PrefixedStorage_get parse null q k' (PrefixedStorage_remove p k ls)
        = PrefixedStorage_get parse null q k' ls
    \<and> PrefixedStorage_list q (PrefixedStorage_remove p k ls) = PrefixedStorage_list q ls
    \<and> PrefixedStorage_get parse null q k' (PrefixedStorage_clear p ls)
        = PrefixedStorage_get parse null q k' ls
    \<and> PrefixedStorage_list q (PrefixedStorage_clear p ls) = PrefixedStorage_list q ls
    \<and> PrefixedStorage_clear p ls = filter (\<lambda>e. \<not> startsWith (fst e) (p @ '':'')) ls
    \<and> PrefixedStorage_list p (PrefixedStorage_clear p ls) = []
    \<and> PrefixedStorage_list p ls
        = map (drop (length p + 1)) (filter (\<lambda>s. startsWith s (p @ '':'')) (map fst ls))
    \<and> (k \<in> set (PrefixedStorage_list p ls) \<longleftrightarrow> getItem (prefixed p k) ls \<noteq> None)"
proof -
  note ne = prefixed_neq [OF inc(2,3)]
  note dj = prefixed_disjoint [OF inc(2,3)]
  have c1: "PrefixedStorage_get parse null p k (PrefixedStorage_set stringify p k v ls) = Inr v"
    using rt by (simp add: PrefixedStorage_get_def PrefixedStorage_set_def getItem_def map_of_setItem)
  have c2: "PrefixedStorage_get parse null q k' (PrefixedStorage_set stringify p k v ls)
        = PrefixedStorage_get parse null q k' ls"
    using ne by (simp add: PrefixedStorage_get_def PrefixedStorage_set_def get_setItem_other)
  have c3: "PrefixedStorage_list q (PrefixedStorage_set stringify p k v ls) = PrefixedStorage_list q ls"
    unfolding list_eq PrefixedStorage_set_def using dj by (simp add: keys_filter_setItem)
  have c4: "PrefixedStorage_get parse null q k' (PrefixedStorage_remove p k ls)
        = PrefixedStorage_get parse null q k' ls"
    using ne by (simp add: PrefixedStorage_get_def PrefixedStorage_remove_def get_removeItem_other)
  have c5: "PrefixedStorage_list q (PrefixedStorage_remove p k ls) = PrefixedStorage_list q ls"
    unfolding list_eq PrefixedStorage_remove_def using dj by (simp add: keys_filter_removeItem)
  have nq: "\<not> startsWith (prefixed q k') (p @ '':'')"
    using prefixed_disjoint [OF inc(3,2)] .
  have c6: "PrefixedStorage_get parse null q k' (PrefixedStorage_clear p ls)
        = PrefixedStorage_get parse null q k' ls"
    unfolding PrefixedStorage_get_def clear_eq
    using getItem_filter [of "\<lambda>s. \<not> startsWith s (p @ '':'')" "prefixed q k'" ls] nq by simp
  have c7: "PrefixedStorage_list q (PrefixedStorage_clear p ls) = PrefixedStorage_list q ls"
    unfolding list_eq clear_eq
    using keys_filter_filter [of "\<lambda>s. startsWith s (q @ '':'')" "\<lambda>s. \<not> startsWith s (p @ '':'')" ls]
      both_prefixes [OF inc(3,2)] by auto
  have c9: "PrefixedStorage_list p (PrefixedStorage_clear p ls) = []"
    unfolding list_eq clear_eq by (induction ls) auto
  show ?thesis
    using c1 c2 c3 c4 c5 c6 c7 c9 clear_eq [of p ls] list_eq [of p ls] list_mem [of k p ls]
    by blast
qed

theorem PrefixedStorage_roundtrip_and_isolation_witness:
  "PrefixedStorage_get (\<lambda>s. Inr (butlast (tl s))) [] ''device-a'' ''vault''
       (PrefixedStorage_set (\<lambda>s. ''\"'' @ s @ ''\"'') ''device-a'' ''vault'' ''share''
          [(''device-b:vault'', ''\"other\"'')]) = (Inr ''share'' :: js_error + string)
   \<and> PrefixedStorage_get (\<lambda>s. Inr (butlast (tl s))) [] ''device-b'' ''vault''
       (PrefixedStorage_set (\<lambda>s. ''\"'' @ s @ ''\"'') ''device-a'' ''vault'' ''share''
          [(''device-b:vault'', ''\"other\"'')]) = (Inr ''other'' :: js_error + string)"
proof -
  have h1: "(\<lambda>s. Inr (butlast (tl s)) :: js_error + string) ((\<lambda>s. ''\"'' @ s @ ''\"'') ''share'') = Inr ''share''"
    by simp
  have h2: "(\<lambda>s. ''\"'' @ s @ ''\"'') ''share'' \<noteq> []" by simp
  have h3: "''device-a'' \<noteq> ''device-b''" by simp
  have h4: "\<not> startsWith ''device-b'' ''device-a''" by (simp add: startsWith_def)
  have h5: "\<not> startsWith ''device-a'' ''device-b''" by (simp add: startsWith_def)
  note t = PrefixedStorage_roundtrip_and_isolation [where parse = "\<lambda>s. Inr (butlast (tl s))"
      and stringify = "\<lambda>s. ''\"'' @ s @ ''\"''" and v = "''share''" and p = "''device-a''"
      and q = "''device-b''" and null = "[]" and k = "''vault''" and k' = "''vault''"
      and ls = "[(''device-b:vault'', ''\"other\"'')]", OF h1 h2 h3 h4 h5]
  have g: "PrefixedStorage_get (\<lambda>s. Inr (butlast (tl s))) [] ''device-b'' ''vault''
      [(''device-b:vault'', ''\"other\"'')] = (Inr ''other'' :: js_error + string)"
    by (simp add: PrefixedStorage_get_def getItem_def prefixed_def)
  from t have a: "PrefixedStorage_get (\<lambda>s. Inr (butlast (tl s))) [] ''device-a'' ''vault''
       (PrefixedStorage_set (\<lambda>s. ''\"'' @ s @ ''\"'') ''device-a'' ''vault'' ''share''
          [(''device-b:vault'', ''\"other\"'')]) = (Inr ''share'' :: js_error + string)"
    by (rule conjunct1)
  from t have b: "PrefixedStorage_get (\<lambda>s. Inr (butlast (tl s))) [] ''device-b'' ''vault''
       (PrefixedStorage_set (\<lambda>s. ''\"'' @ s @ ''\"'') ''device-a'' ''vault'' ''share''
          [(''device-b:vault'', ''\"other\"'')])
       = PrefixedStorage_get (\<lambda>s. Inr (butlast (tl s)) :: js_error + string) [] ''device-b'' ''vault''
          [(''device-b:vault'', ''\"other\"'')]"
    by (rule conjunct1 [OF conjunct2])
  show ?thesis using a b g by (simp only:)
qed

section \<open>Properties of the keygen ceremony\<close>

lemma inv_start: "0 < n \<Longrightarrow> ceremony_inv (start_ceremony sid k n)"
  by (simp add: ceremony_inv_def start_ceremony_def)

lemma inv_step: "ceremony_inv c \<Longrightarrow> ceremony_inv (ceremony_step c ev)"
  by (cases ev) (auto simp: ceremony_inv_def join_def Let_def)

lemma required_step: "required (ceremony_step c ev) = required c"
  by (cases ev) (auto simp: join_def Let_def)

lemma inv_run: "ceremony_inv c \<Longrightarrow> ceremony_inv (run_ceremony c evs)"
  unfolding run_ceremony_def by (induction evs arbitrary: c) (auto intro: inv_step)

lemma required_run: "required (run_ceremony c evs) = required c"
  unfolding run_ceremony_def by (induction evs arbitrary: c) (auto simp: required_step)

lemma joins_only:
  assumes "ceremony_inv c"
      and "session_phase c = awaiting_participants \<or> session_phase c = computing"
  shows "length (joined (run_ceremony c (map Join ps))) = min (required c) (card (set (joined c) \<union> set ps))
       \<and> session_phase (run_ceremony c (map Join ps)) =
           (if length (joined (run_ceremony c (map Join ps))) = required c then computing
            else awaiting_participants)"
  using assms
proof (induction ps arbitrary: c)
  case Nil
  then show ?case
    by (auto simp: run_ceremony_def ceremony_inv_def distinct_card)
next
  case (Cons p ps)
  let ?c = "join p c"
  have i: "ceremony_inv ?c" using inv_step [OF Cons.prems(1), of "Join p"] by simp
  have ph: "session_phase ?c = awaiting_participants \<or> session_phase ?c = computing"
    using Cons.prems(2) by (auto simp: join_def Let_def)
  have r: "required ?c = required c" by (auto simp: join_def Let_def)
  have run: "run_ceremony c (map Join (p # ps)) = run_ceremony ?c (map Join ps)"
    by (simp add: run_ceremony_def)
  have "card (set (joined ?c) \<union> set ps) = card (set (joined c) \<union> set (p # ps))
        \<or> (joined ?c = joined c \<and> length (joined c) = required c)"
  proof (cases "session_phase c = awaiting_participants \<and> length (joined c) < required c \<and> p \<notin> set (joined c)")
    case True
    then have "joined ?c = joined c @ [p]" by (simp add: join_def Let_def)
    then show ?thesis by (simp add: Un_commute insert_commute)
  next
    case False
    then have j: "joined ?c = joined c" by (simp add: join_def)
    show ?thesis
    proof (cases "p \<in> set (joined c)")
      case True
      then show ?thesis using j by (simp add: insert_absorb)
    next
      case False
      with \<open>\<not> (session_phase c = awaiting_participants \<and> length (joined c) < required c \<and> p \<notin> set (joined c))\<close>
      have "length (joined c) = required c"
        using Cons.prems by (auto simp: ceremony_inv_def)
      then show ?thesis using j by simp
    qed
  qed
  then show ?case
  proof
    assume "card (set (joined ?c) \<union> set ps) = card (set (joined c) \<union> set (p # ps))"
    then show ?thesis using Cons.IH [OF i ph] r run by simp
  next
    assume a: "joined ?c = joined c \<and> length (joined c) = required c"
    have d: "distinct (joined c)" using Cons.prems(1) by (simp add: ceremony_inv_def)
    have "required c \<le> card (set (joined c) \<union> set ps)"
      using a d by (metis card_mono distinct_card finite_Un finite_set sup_ge1 List.finite_set)
    moreover have "required c \<le> card (set (joined c) \<union> set (p # ps))"
      using a d by (metis card_mono distinct_card finite_Un finite_set sup_ge1 List.finite_set)
    ultimately show ?thesis using Cons.IH [OF i ph] r run a by simp
  qed
qed

text \<open>
  Claim C5.  A keygen ceremony with \<open>required = n\<close> (\<open>n > 0\<close>) is in \<open>computing\<close> after a
  sequence of joins exactly when at least \<open>n\<close> distinct participants are among them; after
  joins by fewer than \<open>n\<close> distinct participants it still awaits participants; the joined
  count is the number of distinct joiners, capped at \<open>n\<close>.  After any sequence of events, a
  ceremony that is computing, finalizing or completed has exactly \<open>n\<close> distinct joined
  participants.
\<close>

theorem keygen_computing_exactly_at_required:
  assumes "0 < n"
  shows "(session_phase (run_ceremony (start_ceremony sid keygen_ceremony n) (map Join ps)) = computing
            \<longleftrightarrow> n \<le> card (set ps))
       \<and> (card (set ps) < n \<longrightarrow>
            session_phase (run_ceremony (start_ceremony sid keygen_ceremony n) (map Join ps))
              = awaiting_participants)
       \<and> length (joined (run_ceremony (start_ceremony sid keygen_ceremony n) (map Join ps)))
            = min n (card (set ps))
       \<and> (session_phase (run_ceremony (start_ceremony sid keygen_ceremony n) evs)
             \<in> {computing, finalizing, completed} \<longrightarrow>
            length (joined (run_ceremony (start_ceremony sid keygen_ceremony n) evs)) = n
            \<and> distinct (joined (run_ceremony (start_ceremony sid keygen_ceremony n) evs)))"
proof -
  let ?c0 = "start_ceremony sid keygen_ceremony n"
  have i0: "ceremony_inv ?c0" using assms by (rule inv_start)
  have p0: "session_phase ?c0 = awaiting_participants \<or> session_phase ?c0 = computing"
    by (simp add: start_ceremony_def)
  have r0: "required ?c0 = n" and j0: "joined ?c0 = []" by (simp_all add: start_ceremony_def)
  from joins_only [OF i0 p0, of ps]
  have a: "length (joined (run_ceremony ?c0 (map Join ps))) = min n (card (set ps))"
    and b: "session_phase (run_ceremony ?c0 (map Join ps)) =
           (if length (joined (run_ceremony ?c0 (map Join ps))) = n then computing
            else awaiting_participants)"
    by (simp_all add: r0 j0)
  have c: "ceremony_inv (run_ceremony ?c0 evs)" using i0 by (rule inv_run)
  have d: "required (run_ceremony ?c0 evs) = n" by (simp add: required_run r0)
  show ?thesis using a b c d by (auto simp: ceremony_inv_def)
qed

theorem keygen_computing_exactly_at_required_witness:
  "session_phase (run_ceremony (start_ceremony ''s1'' keygen_ceremony 2) (map Join [''A''])) = awaiting_participants
   \<and> session_phase (run_ceremony (start_ceremony ''s1'' keygen_ceremony 2) (map Join [''A'', ''A''])) = awaiting_participants
   \<and> session_phase (run_ceremony (start_ceremony ''s1'' keygen_ceremony 2) (map Join [''A'', ''B''])) = computing
   \<and> joined (run_ceremony (start_ceremony ''s1'' keygen_ceremony 2) [Join ''A'', Join ''B'', Rounds_done, Finalized]) = [''A'', ''B'']
   \<and> session_phase (run_ceremony (start_ceremony ''s1'' keygen_ceremony 2) [Join ''A'', Join ''B'', Rounds_done, Finalized]) = completed"
proof -
  have n: "0 < (2::nat)" by simp
  have c1: "card (set [''A'']) = 1" by simp
  have c2: "card (set [''A'', ''A'']) = 1" by simp
  have c3: "card (set [''A'', ''B'']) = 2" by (simp add: card_insert_if)
  note t1 = keygen_computing_exactly_at_required [OF n, of "''s1''" "[''A'']" "[]"]
  note t2 = keygen_computing_exactly_at_required [OF n, of "''s1''" "[''A'', ''A'']" "[]"]
  note t3 = keygen_computing_exactly_at_required [OF n, of "''s1''" "[''A'', ''B'']"
      "[Join ''A'', Join ''B'', Rounds_done, Finalized]"]
  have a1: "session_phase (run_ceremony (start_ceremony ''s1'' keygen_ceremony 2) (map Join [''A''])) = awaiting_participants"
    using t1 c1 by simp
  have a2: "session_phase (run_ceremony (start_ceremony ''s1'' keygen_ceremony 2) (map Join [''A'', ''A''])) = awaiting_participants"
    using t2 c2 by simp
  have a3: "session_phase (run_ceremony (start_ceremony ''s1'' keygen_ceremony 2) (map Join [''A'', ''B''])) = computing"
    using t3 c3 by simp
  have a4: "joined (run_ceremony (start_ceremony ''s1'' keygen_ceremony 2) [Join ''A'', Join ''B'', Rounds_done, Finalized]) = [''A'', ''B'']"
    by (simp add: run_ceremony_def start_ceremony_def join_def)
  have a5: "session_phase (run_ceremony (start_ceremony ''s1'' keygen_ceremony 2) [Join ''A'', Join ''B'', Rounds_done, Finalized]) = completed"
    by (simp add: run_ceremony_def start_ceremony_def join_def)
  show ?thesis using a1 a2 a3 a4 a5 by (simp only: simp_thms)
qed

section \<open>Properties of the SDK singleton\<close>

lemma initializeSDK_cached:
  "sdkInstance m = Some inst \<Longrightarrow> initializeSDK outcome m = (Inr inst, m) \<and> getSDK m = Inr inst"
  by (simp add: initializeSDK_def getSDK_def)

lemma initializeSDK_first_success:
  "sdkInstance m = None \<Longrightarrow>
   \<exists>inst. initializeSDK None m = (Inr inst, m\<lparr>sdkInstance := Some inst, constructed := constructed m + 1\<rparr>)
        \<and> wasm_loaded inst"
  by (simp add: initializeSDK_def Let_def)

text \<open>
  Claim C10.  The claim holds once a first \<^verbatim>\<open>initializeSDK()\<close> has succeeded (the two
  lemmas above), but not before: \<^verbatim>\<open>sdkInstance\<close> is assigned before \<^verbatim>\<open>initialize()\<close> is
  awaited, so when \<^verbatim>\<open>initialize()\<close> rejects, the call fails and yet \<^verbatim>\<open>getSDK()\<close> returns
  the instance that was never initialized, and a later \<^verbatim>\<open>initializeSDK()\<close> returns that
  same instance without initializing it.
\<close>

theorem getSDK_after_failed_initialize:
  "initializeSDK (Some (Error ''Failed to load WASM'')) sdk_module_initial
     = (Inl (Error ''Failed to load WASM''),
        \<lparr>sdkInstance = Some \<lparr>serial = 0, storage = None, passwordCache = Some PASSWORD_CACHE_TTL,
                               wasm_loaded = False\<rparr>,
         constructed = 1\<rparr>)
   \<and> getSDK (snd (initializeSDK (Some (Error ''Failed to load WASM'')) sdk_module_initial))
     = Inr \<lparr>serial = 0, storage = None, passwordCache = Some PASSWORD_CACHE_TTL, wasm_loaded = False\<rparr>
   \<and> initializeSDK None (snd (initializeSDK (Some (Error ''Failed to load WASM'')) sdk_module_initial))
     = (Inr \<lparr>serial = 0, storage = None, passwordCache = Some PASSWORD_CACHE_TTL, wasm_loaded = False\<rparr>,
        snd (initializeSDK (Some (Error ''Failed to load WASM'')) sdk_module_initial))"
  by (simp add: initializeSDK_def getSDK_def sdk_module_initial_def Let_def)

section \<open>Properties of the password callbacks\<close>






section \<open>Properties of the simulated page\<close>

lemma device_setDeviceState_same [simp]: "device i (setDeviceState i f s) = f (device i s)"
  by (simp add: device_def setDeviceState_def)

lemma device_setDeviceState_other [simp]: "j \<noteq> i \<Longrightarrow> device j (setDeviceState i f s) = device j s"
  by (cases i; cases j) (simp_all add: device_def setDeviceState_def)

lemma setDeviceState_shared [simp]:
  "pendingTransaction (setDeviceState i f s) = pendingTransaction s"
  "sharedPayload (setDeviceState i f s) = sharedPayload s"
  "sharedPayloadType (setDeviceState i f s) = sharedPayloadType s"
  "activeDevice (setDeviceState i f s) = activeDevice s"
  by (simp_all add: setDeviceState_def)

lemma device_shared_update [simp]:
  "device i (s\<lparr>pendingTransaction := p\<rparr>) = device i s"
  "device i (s\<lparr>sharedPayload := q\<rparr>) = device i s"
  "device i (s\<lparr>sharedPayloadType := r\<rparr>) = device i s"
  by (simp_all add: device_def)





lemma initiate_no_vault:
  "vault (device i s) = None \<Longrightarrow> initiateTransaction e now i ta a s = s"
  by (simp add: initiateTransaction_def)

lemma initiate_no_destination:
  assumes "vault (device i s) = Some v" and "ta = None \<or> ta = Some []"
  shows "initiateTransaction e now i ta a s =
           setDeviceState i (\<lambda>d. d\<lparr>error := Some ''Please enter destination address''\<rparr>) s"
  using assms by (auto simp: initiateTransaction_def Let_def)

lemma initiate_success:
  assumes "vault (device i s) = Some v" and "toAddr \<noteq> []"
      and "prepare e v toAddr (amount_value a) = Inr (sa, u, kp, hs)"
  shows "initiateTransaction e now i (Some toAddr) a s =
           setDeviceState i
             (\<lambda>d. d\<lparr>loading := False, status := ''Waiting for approval...'',
                    signingPayload := Some \<lparr>sp_chain = ''Solana'', sp_messageHashes = hs,
                      sp_toAddress = toAddr, sp_amount = amount_value a, sp_timestamp = now\<rparr>\<rparr>)
             ((setDeviceState i
                 (\<lambda>d. d\<lparr>loading := True, status := ''Preparing transaction...'', error := None\<rparr>) s)
              \<lparr>pendingTransaction :=
                 Some \<lparr>fromDevice = i, toAddress = toAddr, amount = amount_value a, chain = ''Solana'',
                       request_signingPayload = \<lparr>sp_chain = ''Solana'', sp_messageHashes = hs,
                         sp_toAddress = toAddr, sp_amount = amount_value a, sp_timestamp = now\<rparr>\<rparr>,
               sharedPayload := Some (signing_json \<lparr>sp_chain = ''Solana'', sp_messageHashes = hs,
                         sp_toAddress = toAddr, sp_amount = amount_value a, sp_timestamp = now\<rparr>),
               sharedPayloadType := Some signing\<rparr>)"
  using assms by (simp add: initiateTransaction_def Let_def)

lemma initiate_failure:
  assumes "vault (device i s) = Some v" and "toAddr \<noteq> []"
      and "prepare e v toAddr (amount_value a) = Inl err"
  shows "initiateTransaction e now i (Some toAddr) a s =
           (setDeviceState i
              (\<lambda>d. d\<lparr>loading := False, error := Some (message err),
                     status := ''Transaction failed'', signingPayload := None\<rparr>)
              (setDeviceState i
                 (\<lambda>d. d\<lparr>loading := True, status := ''Preparing transaction...'', error := None\<rparr>) s))
           \<lparr>pendingTransaction := None, sharedPayload := None, sharedPayloadType := None\<rparr>"
  using assms by (simp add: initiateTransaction_def Let_def)

lemma prepare_Inr_iff:
  "prepare e v toAddr amt = Inr (sa, u, kp, hs) \<longleftrightarrow>
     address e v ''Solana'' = Inr sa \<and> amountBaseUnits e (parseFloat e amt) = Inr u \<and>
     prepareSendTx e v \<lparr>coin_chain = ''Solana'', coin_address = sa, decimals = 9, ticker = ''SOL''\<rparr> toAddr u = Inr kp \<and>
     extractMessageHashes e v kp = Inr hs"
  by (auto simp: prepare_def split: sum.splits)

lemma send_no_destination:
  assumes "md_vault m \<noteq> None" "md_sdk m \<noteq> None" and "ta = None \<or> ta = Some []"
  shows "sendTransaction e sh evs ta a m = m\<lparr>md_error := Some ''Please enter a destination address''\<rparr>"
  using assms by (auto simp: sendTransaction_def send_begin_def Let_def)

text \<open>
  Claim C4, as the pages implement it.  On a device that holds a vault, a missing or empty
  destination is refused with the message \<^verbatim>\<open>Please enter destination address\<close> (on the
  multi-device page \<^verbatim>\<open>Please enter a destination address\<close>) and nothing else changes: no
  pending request, no shared payload.  The amount is not checked by the page: with a
  destination, if the SDK's preparation succeeds, the pending request carries the amount
  as typed (or the default) and the message hashes that \<^verbatim>\<open>extractMessageHashes\<close> returned
  for the payload that \<^verbatim>\<open>prepareSendTx\<close> built for the amount in base units; if a step of
  the preparation fails, no pending request or shared payload remains and the device
  shows the error.
\<close>

theorem destination_checked_amount_not:
  assumes "vault (device i s) = Some v" and "md_vault m \<noteq> None" and "md_sdk m \<noteq> None"
  shows "(ta = None \<or> ta = Some [] \<longrightarrow>
            initiateTransaction e now i ta a s
              = setDeviceState i (\<lambda>d. d\<lparr>error := Some ''Please enter destination address''\<rparr>) s
          \<and> pendingTransaction (initiateTransaction e now i ta a s) = pendingTransaction s
          \<and> sharedPayload (initiateTransaction e now i ta a s) = sharedPayload s
          \<and> sendTransaction e sh evs ta a m = m\<lparr>md_error := Some ''Please enter a destination address''\<rparr>)
       \<and> (toAddr \<noteq> [] \<and> prepare e v toAddr (amount_value a) = Inr (sa, u, kp, hs) \<longrightarrow>
            pendingTransaction (initiateTransaction e now i (Some toAddr) a s)
              = Some \<lparr>fromDevice = i, toAddress = toAddr, amount = amount_value a, chain = ''Solana'',
                      request_signingPayload = \<lparr>sp_chain = ''Solana'', sp_messageHashes = hs,
                        sp_toAddress = toAddr, sp_amount = amount_value a, sp_timestamp = now\<rparr>\<rparr>
          \<and> error (device i (initiateTransaction e now i (Some toAddr) a s)) = None
          \<and> amountBaseUnits e (parseFloat e (amount_value a)) = Inr u
          \<and> prepareSendTx e v \<lparr>coin_chain = ''Solana'', coin_address = sa, decimals = 9, ticker = ''SOL''\<rparr>
               toAddr u = Inr kp
          \<and> extractMessageHashes e v kp = Inr hs)
       \<and> (toAddr \<noteq> [] \<and> prepare e v toAddr (amount_value a) = Inl err \<longrightarrow>
            pendingTransaction (initiateTransaction e now i (Some toAddr) a s) = None
          \<and> sharedPayload (initiateTransaction e now i (Some toAddr) a s) = None
          \<and> error (device i (initiateTransaction e now i (Some toAddr) a s)) = Some (message err)
          \<and> status (device i (initiateTransaction e now i (Some toAddr) a s)) = ''Transaction failed'')"
proof (intro conjI impI)
  assume d: "ta = None \<or> ta = Some []"
  note n = initiate_no_destination [OF assms(1) d]
  show "initiateTransaction e now i ta a s
          = setDeviceState i (\<lambda>d. d\<lparr>error := Some ''Please enter destination address''\<rparr>) s"
    by (rule n)
  show "pendingTransaction (initiateTransaction e now i ta a s) = pendingTransaction s"
    by (simp add: n)
  show "sharedPayload (initiateTransaction e now i ta a s) = sharedPayload s"
    by (simp add: n)
  show "sendTransaction e sh evs ta a m = m\<lparr>md_error := Some ''Please enter a destination address''\<rparr>"
    by (rule send_no_destination [OF assms(2,3) d])
next
  assume ok: "toAddr \<noteq> [] \<and> prepare e v toAddr (amount_value a) = Inr (sa, u, kp, hs)"
  note t = initiate_success [OF assms(1) conjunct1 [OF ok] conjunct2 [OF ok]]
  show "pendingTransaction (initiateTransaction e now i (Some toAddr) a s)
              = Some \<lparr>fromDevice = i, toAddress = toAddr, amount = amount_value a, chain = ''Solana'',
                      request_signingPayload = \<lparr>sp_chain = ''Solana'', sp_messageHashes = hs,
                        sp_toAddress = toAddr, sp_amount = amount_value a, sp_timestamp = now\<rparr>\<rparr>"
    by (simp add: t)
  show "error (device i (initiateTransaction e now i (Some toAddr) a s)) = None"
    by (simp add: t)
  from ok show "amountBaseUnits e (parseFloat e (amount_value a)) = Inr u"
    by (simp add: prepare_Inr_iff)
  from ok show "prepareSendTx e v \<lparr>coin_chain = ''Solana'', coin_address = sa, decimals = 9, ticker = ''SOL''\<rparr>
               toAddr u = Inr kp"
    by (simp add: prepare_Inr_iff)
  from ok show "extractMessageHashes e v kp = Inr hs"
    by (simp add: prepare_Inr_iff)
next
  assume bad: "toAddr \<noteq> [] \<and> prepare e v toAddr (amount_value a) = Inl err"
  note t = initiate_failure [OF assms(1) conjunct1 [OF bad] conjunct2 [OF bad]]
  show "pendingTransaction (initiateTransaction e now i (Some toAddr) a s) = None"
    by (simp add: t)
  show "sharedPayload (initiateTransaction e now i (Some toAddr) a s) = None"
    by (simp add: t)
  show "error (device i (initiateTransaction e now i (Some toAddr) a s)) = Some (message err)"
    by (simp add: t)
  show "status (device i (initiateTransaction e now i (Some toAddr) a s)) = ''Transaction failed''"
    by (simp add: t)
qed

lemma example_ready_vault: "vault (device i example_ready) = Some example_vault"
  by (cases i) (simp_all add: device_def example_ready_def example_device_def)

lemma example_prepare_zero:
  "prepare example_env example_vault ''addrX'' ''0''
     = Inr (''SenderAddr'', 0, ''payload-for-addrX'', [''hash-of-payload-for-addrX''])"
  by (simp add: prepare_def amountBaseUnits_def example_env_def)

lemma example_prepare_negative:
  "prepare example_env example_vault ''addrX'' ''-1''
     = Inr (''SenderAddr'', - 1000000000, ''payload-for-addrX'', [''hash-of-payload-for-addrX''])"
  by (simp add: prepare_def amountBaseUnits_def example_env_def)

text \<open>
  Claim C4 as stated fails: with an SDK that prepares the transfer, amounts \<^verbatim>\<open>0\<close> and
  \<^verbatim>\<open>-1\<close> produce a pending signing request and no error.
\<close>

theorem nonpositive_amount_accepted:
  "pendingTransaction (initiateTransaction example_env 1700000000000 device_a (Some ''addrX'') (Some ''0'') example_ready)
     = Some \<lparr>fromDevice = device_a, toAddress = ''addrX'', amount = ''0'', chain = ''Solana'',
             request_signingPayload = \<lparr>sp_chain = ''Solana'',
               sp_messageHashes = [''hash-of-payload-for-addrX''], sp_toAddress = ''addrX'',
               sp_amount = ''0'', sp_timestamp = 1700000000000\<rparr>\<rparr>
   \<and> error (device device_a
        (initiateTransaction example_env 1700000000000 device_a (Some ''addrX'') (Some ''0'') example_ready)) = None
   \<and> pendingTransaction (initiateTransaction example_env 1700000000000 device_a (Some ''addrX'') (Some ''-1'') example_ready)
     = Some \<lparr>fromDevice = device_a, toAddress = ''addrX'', amount = ''-1'', chain = ''Solana'',
             request_signingPayload = \<lparr>sp_chain = ''Solana'',
               sp_messageHashes = [''hash-of-payload-for-addrX''], sp_toAddress = ''addrX'',
               sp_amount = ''-1'', sp_timestamp = 1700000000000\<rparr>\<rparr>"
proof -
  have z: "amount_value (Some ''0'') = ''0''" and n: "amount_value (Some ''-1'') = ''-1''"
    by (simp_all add: amount_value_def)
  have x: "''addrX'' \<noteq> []" by simp
  note a = initiate_success [where a = "Some ''0''" and now = 1700000000000,
      OF example_ready_vault [of device_a] x, unfolded z, OF example_prepare_zero]
  note b = initiate_success [where a = "Some ''-1''" and now = 1700000000000,
      OF example_ready_vault [of device_a] x, unfolded n, OF example_prepare_negative]
  show ?thesis by (simp add: a b)
qed

theorem destination_checked_amount_not_witness:
  "initiateTransaction example_env 1700000000000 device_a (Some '''') (Some ''0.001'') example_ready
     = setDeviceState device_a (\<lambda>d. d\<lparr>error := Some ''Please enter destination address''\<rparr>) example_ready
   \<and> sendTransaction example_env (\<lambda>n. ''2'') [] (Some '''') (Some ''0.001'') example_md
     = example_md\<lparr>md_error := Some ''Please enter a destination address''\<rparr>
   \<and> pendingTransaction (initiateTransaction example_env 1700000000000 device_a (Some ''addrX'') None example_ready)
     = Some \<lparr>fromDevice = device_a, toAddress = ''addrX'', amount = ''0.001'', chain = ''Solana'',
             request_signingPayload = \<lparr>sp_chain = ''Solana'',
               sp_messageHashes = [''hash-of-payload-for-addrX''], sp_toAddress = ''addrX'',
               sp_amount = ''0.001'', sp_timestamp = 1700000000000\<rparr>\<rparr>
   \<and> pendingTransaction (initiateTransaction (example_env\<lparr>address := \<lambda>v c. Inl (Error ''locked'')\<rparr>)
        1700000000000 device_a (Some ''addrX'') None example_ready) = None"
proof -
  have v: "vault (device device_a example_ready) = Some example_vault" by (rule example_ready_vault)
  have m1: "md_vault example_md \<noteq> None" and m2: "md_sdk example_md \<noteq> None"
    by (simp_all add: example_md_def)
  have d: "amount_value None = ''0.001''" by (simp add: amount_value_def)
  have ok: "prepare example_env example_vault ''addrX'' (amount_value None)
     = Inr (''SenderAddr'', 1000000, ''payload-for-addrX'', [''hash-of-payload-for-addrX''])"
    by (simp add: prepare_def amountBaseUnits_def example_env_def d)
  have bad: "prepare (example_env\<lparr>address := \<lambda>v c. Inl (Error ''locked'')\<rparr>) example_vault ''addrX'' (amount_value None)
     = Inl (Error ''locked'')"
    by (simp add: prepare_def)
  note t1 = destination_checked_amount_not [OF v m1 m2, where ta = "Some ''''" and a = "Some ''0.001''"
      and e = example_env and now = 1700000000000 and sh = "\<lambda>n. ''2''" and evs = "[]"
      and toAddr = "''addrX''"]
  note t2 = destination_checked_amount_not [OF v m1 m2, where ta = "Some ''''" and a = None
      and e = example_env and now = 1700000000000 and toAddr = "''addrX''" and sa = "''SenderAddr''"
      and u = 1000000 and kp = "''payload-for-addrX''" and hs = "[''hash-of-payload-for-addrX'']"]
  note t3 = destination_checked_amount_not [OF v m1 m2, where ta = "Some ''''" and a = None
      and e = "example_env\<lparr>address := \<lambda>v c. Inl (Error ''locked'')\<rparr>" and now = 1700000000000
      and toAddr = "''addrX''" and err = "Error ''locked''"]
  have a1: "initiateTransaction example_env 1700000000000 device_a (Some '''') (Some ''0.001'') example_ready
     = setDeviceState device_a (\<lambda>d. d\<lparr>error := Some ''Please enter destination address''\<rparr>) example_ready"
    using t1 by simp
  have a2: "sendTransaction example_env (\<lambda>n. ''2'') [] (Some '''') (Some ''0.001'') example_md
     = example_md\<lparr>md_error := Some ''Please enter a destination address''\<rparr>"
    using t1 by simp
  have a3: "pendingTransaction (initiateTransaction example_env 1700000000000 device_a (Some ''addrX'') None example_ready)
     = Some \<lparr>fromDevice = device_a, toAddress = ''addrX'', amount = ''0.001'', chain = ''Solana'',
             request_signingPayload = \<lparr>sp_chain = ''Solana'',
               sp_messageHashes = [''hash-of-payload-for-addrX''], sp_toAddress = ''addrX'',
               sp_amount = ''0.001'', sp_timestamp = 1700000000000\<rparr>\<rparr>"
    using t2 ok d by simp
  have a4: "pendingTransaction (initiateTransaction (example_env\<lparr>address := \<lambda>v c. Inl (Error ''locked'')\<rparr>)
        1700000000000 device_a (Some ''addrX'') None example_ready) = None"
    using t3 bad by simp
  show ?thesis using a1 a2 a3 a4 by (simp only: simp_thms)
qed

lemma approve_guard:
  "vault (device j s) = None \<or> pendingTransaction s = None \<Longrightarrow>
   approveTransaction e r1 r2 j s = s"
  by (auto simp: approveTransaction_def Let_def split: option.splits)

lemma approve_success:
  assumes "vault (device j s) = Some v" and "pendingTransaction s = Some ptx"
  shows "status (device j (approveTransaction e r1 r2 j s))
           = check_mark @ '' Transaction signed & sent!''"
    and "status (device (initiatorId j) (approveTransaction e r1 r2 j s))
           = check_mark @ '' Tx: '' @ r1 @ ''...'' @ r2"
    and "loading (device d (approveTransaction e r1 r2 j s)) = False"
    and "balance (device d (approveTransaction e r1 r2 j s))
           = Some (max_zero (js_minus (round_double e)
                      (js_minus (round_double e) (or_zero (balance (device j s))) (parseFloat e (amount ptx)))
                      (parseFloat e ''0.000005'')))"
    and "vault (device d (approveTransaction e r1 r2 j s)) = vault (device d s)"
    and "sdk (device d (approveTransaction e r1 r2 j s)) = sdk (device d s)"
    and "pendingTransaction (approveTransaction e r1 r2 j s) = None"
    and "sharedPayload (approveTransaction e r1 r2 j s) = None"
    and "sharedPayloadType (approveTransaction e r1 r2 j s) = None"
  using assms
  by (cases j; cases d; simp add: approveTransaction_def approve_try_def Let_def initiatorId_def)+

lemma reject_effect:
  "pendingTransaction (rejectTransaction s) = None"
  "sharedPayload (rejectTransaction s) = None"
  "sharedPayloadType (rejectTransaction s) = None"
  "status (device d (rejectTransaction s)) = ''Transaction rejected''"
  "loading (device d (rejectTransaction s)) = False"
  "vault (device d (rejectTransaction s)) = vault (device d s)"
  "sdk (device d (rejectTransaction s)) = sdk (device d s)"
  "balance (device d (rejectTransaction s)) = balance (device d s)"
  "signingPayload (device device_a (rejectTransaction s)) = None"
  by (cases d; simp add: rejectTransaction_def Let_def)+

lemma example_pending:
  "pendingTransaction (initiateTransaction example_env now device_a (Some ''addrX'') (Some ''0.001'') example_ready)
     = Some \<lparr>fromDevice = device_a, toAddress = ''addrX'', amount = ''0.001'', chain = ''Solana'',
             request_signingPayload = \<lparr>sp_chain = ''Solana'',
               sp_messageHashes = [''hash-of-payload-for-addrX''], sp_toAddress = ''addrX'',
               sp_amount = ''0.001'', sp_timestamp = now\<rparr>\<rparr>"
proof -
  have d: "amount_value (Some ''0.001'') = ''0.001''" by (simp add: amount_value_def)
  have ok: "prepare example_env example_vault ''addrX'' (amount_value (Some ''0.001''))
     = Inr (''SenderAddr'', 1000000, ''payload-for-addrX'', [''hash-of-payload-for-addrX''])"
    by (simp add: prepare_def amountBaseUnits_def example_env_def d)
  have x: "''addrX'' \<noteq> []" by simp
  show ?thesis
    by (simp add: initiate_success [OF example_ready_vault [of device_a] x ok] d)
qed

lemma example_pending_vault:
  "vault (device d (initiateTransaction example_env now device_a (Some ''addrX'') (Some ''0.001'') example_ready))
     = Some example_vault"
proof -
  have d: "amount_value (Some ''0.001'') = ''0.001''" by (simp add: amount_value_def)
  have ok: "prepare example_env example_vault ''addrX'' (amount_value (Some ''0.001''))
     = Inr (''SenderAddr'', 1000000, ''payload-for-addrX'', [''hash-of-payload-for-addrX''])"
    by (simp add: prepare_def amountBaseUnits_def example_env_def d)
  have x: "''addrX'' \<noteq> []" by simp
  show ?thesis
    using example_ready_vault [of d]
    by (cases d) (simp_all add: initiate_success [OF example_ready_vault [of device_a] x ok])
qed

text \<open>
  Claim C2, as the simulated page implements it.  The page holds one slot,
  \<^verbatim>\<open>state.pendingTransaction\<close>, so at most one request is pending.  An
  \<^verbatim>\<open>initiateTransaction\<close> whose preparation succeeds is accepted whatever the slot holds:
  it raises no error and puts its own request in the slot.  After a rejection, and after
  an approval that completes, the slot is empty and a new \<^verbatim>\<open>initiateTransaction\<close> is
  accepted in the same way.
\<close>

theorem pending_request_is_replaced:
  assumes "vault (device i s) = Some v" and "toAddr \<noteq> []"
      and "prepare e v toAddr (amount_value a) = Inr (sa, u, kp, hs)"
  shows "pendingTransaction (initiateTransaction e now i (Some toAddr) a s)
           = Some \<lparr>fromDevice = i, toAddress = toAddr, amount = amount_value a, chain = ''Solana'',
                   request_signingPayload = \<lparr>sp_chain = ''Solana'', sp_messageHashes = hs,
                     sp_toAddress = toAddr, sp_amount = amount_value a, sp_timestamp = now\<rparr>\<rparr>
       \<and> error (device i (initiateTransaction e now i (Some toAddr) a s)) = None
       \<and> status (device i (initiateTransaction e now i (Some toAddr) a s)) = ''Waiting for approval...''
       \<and> pendingTransaction (rejectTransaction s) = None
       \<and> pendingTransaction (initiateTransaction e now i (Some toAddr) a (rejectTransaction s))
           = Some \<lparr>fromDevice = i, toAddress = toAddr, amount = amount_value a, chain = ''Solana'',
                   request_signingPayload = \<lparr>sp_chain = ''Solana'', sp_messageHashes = hs,
                     sp_toAddress = toAddr, sp_amount = amount_value a, sp_timestamp = now\<rparr>\<rparr>
       \<and> (vault (device j s) \<noteq> None \<and> pendingTransaction s \<noteq> None \<longrightarrow>
            pendingTransaction (approveTransaction e r1 r2 j s) = None
          \<and> pendingTransaction
              (initiateTransaction e now i (Some toAddr) a (approveTransaction e r1 r2 j s))
              = Some \<lparr>fromDevice = i, toAddress = toAddr, amount = amount_value a, chain = ''Solana'',
                   request_signingPayload = \<lparr>sp_chain = ''Solana'', sp_messageHashes = hs,
                     sp_toAddress = toAddr, sp_amount = amount_value a, sp_timestamp = now\<rparr>\<rparr>)"
proof -
  note a = initiate_success [OF assms]
  have vr: "vault (device i (rejectTransaction s)) = Some v"
    using assms(1) by (simp add: reject_effect)
  note b = initiate_success [OF vr assms(2,3)]
  have c: "pendingTransaction (approveTransaction e r1 r2 j s) = None
          \<and> pendingTransaction
              (initiateTransaction e now i (Some toAddr) a (approveTransaction e r1 r2 j s))
              = Some \<lparr>fromDevice = i, toAddress = toAddr, amount = amount_value a, chain = ''Solana'',
                   request_signingPayload = \<lparr>sp_chain = ''Solana'', sp_messageHashes = hs,
                     sp_toAddress = toAddr, sp_amount = amount_value a, sp_timestamp = now\<rparr>\<rparr>"
    if h: "vault (device j s) \<noteq> None \<and> pendingTransaction s \<noteq> None"
  proof -
    from h obtain vj ptx where vj: "vault (device j s) = Some vj" and p: "pendingTransaction s = Some ptx"
      by auto
    note g = approve_success [OF vj p]
    have va: "vault (device i (approveTransaction e r1 r2 j s)) = Some v"
      using g(5) assms(1) by simp
    show ?thesis using g(7) initiate_success [OF va assms(2,3)] by simp
  qed
  show ?thesis using c by (simp add: a b reject_effect)
qed

text \<open>
  Claim C2 as stated fails: while a request to \<^verbatim>\<open>addrX\<close> is pending, a second
  \<^verbatim>\<open>initiateTransaction\<close> from the same device does not fail; it replaces the pending
  request with its own.
\<close>

theorem second_initiate_replaces_pending:
  "pendingTransaction
     (initiateTransaction example_env 1700000000000 device_a (Some ''addrX'') (Some ''0.001'') example_ready)
     = Some \<lparr>fromDevice = device_a, toAddress = ''addrX'', amount = ''0.001'', chain = ''Solana'',
             request_signingPayload = \<lparr>sp_chain = ''Solana'',
               sp_messageHashes = [''hash-of-payload-for-addrX''], sp_toAddress = ''addrX'',
               sp_amount = ''0.001'', sp_timestamp = 1700000000000\<rparr>\<rparr>
   \<and> pendingTransaction
     (initiateTransaction example_env 1700000005000 device_a (Some ''addrY'') (Some ''0.001'')
       (initiateTransaction example_env 1700000000000 device_a (Some ''addrX'') (Some ''0.001'') example_ready))
     = Some \<lparr>fromDevice = device_a, toAddress = ''addrY'', amount = ''0.001'', chain = ''Solana'',
             request_signingPayload = \<lparr>sp_chain = ''Solana'',
               sp_messageHashes = [''hash-of-payload-for-addrY''], sp_toAddress = ''addrY'',
               sp_amount = ''0.001'', sp_timestamp = 1700000005000\<rparr>\<rparr>
   \<and> error (device device_a
     (initiateTransaction example_env 1700000005000 device_a (Some ''addrY'') (Some ''0.001'')
       (initiateTransaction example_env 1700000000000 device_a (Some ''addrX'') (Some ''0.001'') example_ready)))
     = None"
proof -
  have d: "amount_value (Some ''0.001'') = ''0.001''" by (simp add: amount_value_def)
  have ok: "prepare example_env example_vault ''addrY'' (amount_value (Some ''0.001''))
     = Inr (''SenderAddr'', 1000000, ''payload-for-addrY'', [''hash-of-payload-for-addrY''])"
    by (simp add: prepare_def amountBaseUnits_def example_env_def d)
  have y: "''addrY'' \<noteq> []" by simp
  note b = initiate_success [OF example_pending_vault [of device_a] y ok]
  show ?thesis by (simp add: example_pending b d)
qed

theorem pending_request_is_replaced_witness:
  "pendingTransaction
     (initiateTransaction example_env 1700000005000 device_b (Some ''addrY'') (Some ''0.001'')
       (initiateTransaction example_env 1700000000000 device_a (Some ''addrX'') (Some ''0.001'') example_ready))
     = Some \<lparr>fromDevice = device_b, toAddress = ''addrY'', amount = ''0.001'', chain = ''Solana'',
             request_signingPayload = \<lparr>sp_chain = ''Solana'',
               sp_messageHashes = [''hash-of-payload-for-addrY''], sp_toAddress = ''addrY'',
               sp_amount = ''0.001'', sp_timestamp = 1700000005000\<rparr>\<rparr>
   \<and> pendingTransaction
     (approveTransaction example_env ''k3j9x2ab'' ''p0q8w7zz'' device_b
       (initiateTransaction example_env 1700000000000 device_a (Some ''addrX'') (Some ''0.001'') example_ready))
     = None
   \<and> pendingTransaction
     (initiateTransaction example_env 1700000005000 device_b (Some ''addrY'') (Some ''0.001'')
       (approveTransaction example_env ''k3j9x2ab'' ''p0q8w7zz'' device_b
         (initiateTransaction example_env 1700000000000 device_a (Some ''addrX'') (Some ''0.001'') example_ready)))
     = Some \<lparr>fromDevice = device_b, toAddress = ''addrY'', amount = ''0.001'', chain = ''Solana'',
             request_signingPayload = \<lparr>sp_chain = ''Solana'',
               sp_messageHashes = [''hash-of-payload-for-addrY''], sp_toAddress = ''addrY'',
               sp_amount = ''0.001'', sp_timestamp = 1700000005000\<rparr>\<rparr>"
proof -
  let ?s0 = "initiateTransaction example_env 1700000000000 device_a (Some ''addrX'') (Some ''0.001'') example_ready"
  have d: "amount_value (Some ''0.001'') = ''0.001''" by (simp add: amount_value_def)
  have ok: "prepare example_env example_vault ''addrY'' (amount_value (Some ''0.001''))
     = Inr (''SenderAddr'', 1000000, ''payload-for-addrY'', [''hash-of-payload-for-addrY''])"
    by (simp add: prepare_def amountBaseUnits_def example_env_def d)
  have y: "''addrY'' \<noteq> []" by simp
  note t = pending_request_is_replaced [OF example_pending_vault [of device_b 1700000000000] y ok,
      where now = 1700000005000 and j = device_b and ?r1.0 = "''k3j9x2ab''" and ?r2.0 = "''p0q8w7zz''"]
  have h: "vault (device device_b ?s0) \<noteq> None \<and> pendingTransaction ?s0 \<noteq> None"
    by (simp add: example_pending_vault example_pending)
  show ?thesis using t h by (simp add: d)
qed

section \<open>Properties of the multi-device page\<close>

lemma send_begin_awaits:
  assumes "md_vault m = Some v" and "md_sdk m \<noteq> None" and "toAddr \<noteq> []"
      and "prepare e v toAddr (amount_value a) = Inr (sa, u, kp, hs)"
  shows "send_begin e (Some toAddr) a m =
           Awaiting_sign v toAddr sa u kp hs
             (m\<lparr>md_loading := True, md_signingInProgress := True, md_step := step_signing,
                md_status := ''Waiting for QR code from SDK...'', md_error := None,
                md_qrCodeDataUrl := None, md_qrPayload := None, md_txHash := None,
                md_debugInfo := None\<rparr>)"
  using assms
  by (auto simp: send_begin_def send_prepare_def prepare_Inr_iff Let_def)

lemma sendTransaction_awaiting:
  assumes "send_begin e ta a m = Awaiting_sign v t sa u kp hs m1"
  shows "sendTransaction e sh evs ta a m
           = send_resume e sa kp (sign e v ''Solana'' kp hs) (fold (on_sign_event e sh t u sa) evs m1)"
  by (simp add: sendTransaction_def assms)

lemma on_sign_event_keeps:
  "md_txHash (on_sign_event e sh t u sa ev m) = md_txHash m"
  "md_error (on_sign_event e sh t u sa ev m) = md_error m"
  "md_vault (on_sign_event e sh t u sa ev m) = md_vault m"
  by (cases ev; simp add: Let_def split: sum.splits)+

lemma fold_events_keep:
  "md_txHash (fold (on_sign_event e sh t u sa) evs m) = md_txHash m
   \<and> md_error (fold (on_sign_event e sh t u sa) evs m) = md_error m
   \<and> md_vault (fold (on_sign_event e sh t u sa) evs m) = md_vault m"
  by (induction evs arbitrary: m) (simp_all add: on_sign_event_keeps)

lemma send_resume_signed:
  assumes "md_vault m = Some v" and "broadcastTx e v ''Solana'' kp sg = Inr h"
  shows "md_txHash (send_resume e sa kp (Inr sg) m) = Some h"
    and "md_status (send_resume e sa kp (Inr sg) m) = ''Transaction sent!''"
    and "md_error (send_resume e sa kp (Inr sg) m) = md_error m"
    and "md_step (send_resume e sa kp (Inr sg) m) = step_wallet"
  using assms by (simp_all add: send_resume_def send_finally_def Let_def)

lemma send_resume_failed:
  shows "md_txHash (send_resume e sa kp (Inl err) m) = md_txHash m"
    and "md_status (send_resume e sa kp (Inl err) m) = ''Transaction failed''"
    and "md_error (send_resume e sa kp (Inl err) m) = Some (message err)"
  by (simp_all add: send_resume_def send_finally_def Let_def)

text \<open>
  Claim C3, as the pages implement it.  On the multi-device page, when the preparation
  succeeds, the message hashes given to \<^verbatim>\<open>sign\<close> are those extracted from the prepared
  payload; if \<^verbatim>\<open>sign\<close> returns a signature and the broadcast of exactly that signature
  succeeds, the page ends with the broadcast's transaction hash and \<^verbatim>\<open>Transaction sent!\<close>;
  if \<^verbatim>\<open>sign\<close> fails, nothing is broadcast and the page shows the error.  The page itself
  verifies nothing.  On the simulated page an approval that completes shows a mock
  transaction hash made of the two random strings, whatever the request's message hashes
  and whatever the SDK.
\<close>

theorem signature_forwarded_unverified:
  assumes "md_vault m = Some v" and "md_sdk m \<noteq> None" and "toAddr \<noteq> []"
      and "prepare e v toAddr (amount_value a) = Inr (sa, u, kp, hs)"
  shows "(sign e v ''Solana'' kp hs = Inr sg \<and> broadcastTx e v ''Solana'' kp sg = Inr h \<longrightarrow>
            md_txHash (sendTransaction e sh evs (Some toAddr) a m) = Some h
          \<and> md_status (sendTransaction e sh evs (Some toAddr) a m) = ''Transaction sent!''
          \<and> md_error (sendTransaction e sh evs (Some toAddr) a m) = None)
       \<and> (sign e v ''Solana'' kp hs = Inl err \<longrightarrow>
            md_txHash (sendTransaction e sh evs (Some toAddr) a m) = None
          \<and> md_status (sendTransaction e sh evs (Some toAddr) a m) = ''Transaction failed''
          \<and> md_error (sendTransaction e sh evs (Some toAddr) a m) = Some (message err))
       \<and> extractMessageHashes e v kp = Inr hs
       \<and> (vault (device j s) \<noteq> None \<and> pendingTransaction s \<noteq> None \<longrightarrow>
            status (device (initiatorId j) (approveTransaction e' r1 r2 j s))
              = check_mark @ '' Tx: '' @ r1 @ ''...'' @ r2
          \<and> status (device j (approveTransaction e' r1 r2 j s))
              = check_mark @ '' Transaction signed & sent!'')"
proof -
  define M where "M = fold (on_sign_event e sh toAddr u sa) evs
             (m\<lparr>md_loading := True, md_signingInProgress := True, md_step := step_signing,
                md_status := ''Waiting for QR code from SDK...'', md_error := None,
                md_qrCodeDataUrl := None, md_qrPayload := None, md_txHash := None,
                md_debugInfo := None\<rparr>)"
  have run: "sendTransaction e sh evs (Some toAddr) a m
               = send_resume e sa kp (sign e v ''Solana'' kp hs) M"
    by (simp add: sendTransaction_def send_begin_awaits [OF assms] M_def)
  have vm: "md_vault M = Some v" and em: "md_error M = None" and tm: "md_txHash M = None"
    using assms(1) by (simp_all add: M_def fold_events_keep)
  have signed: "md_txHash (sendTransaction e sh evs (Some toAddr) a m) = Some h
          \<and> md_status (sendTransaction e sh evs (Some toAddr) a m) = ''Transaction sent!''
          \<and> md_error (sendTransaction e sh evs (Some toAddr) a m) = None"
    if ok: "sign e v ''Solana'' kp hs = Inr sg \<and> broadcastTx e v ''Solana'' kp sg = Inr h"
    using send_resume_signed [OF vm conjunct2 [OF ok], of sa] ok em by (simp add: run)
  have failed: "md_txHash (sendTransaction e sh evs (Some toAddr) a m) = None
          \<and> md_status (sendTransaction e sh evs (Some toAddr) a m) = ''Transaction failed''
          \<and> md_error (sendTransaction e sh evs (Some toAddr) a m) = Some (message err)"
    if bad: "sign e v ''Solana'' kp hs = Inl err"
    using bad tm by (simp add: run send_resume_failed)
  have hashes: "extractMessageHashes e v kp = Inr hs"
    using assms(4) by (simp add: prepare_Inr_iff)
  have approved: "status (device (initiatorId j) (approveTransaction e' r1 r2 j s))
              = check_mark @ '' Tx: '' @ r1 @ ''...'' @ r2
          \<and> status (device j (approveTransaction e' r1 r2 j s))
              = check_mark @ '' Transaction signed & sent!''"
    if h: "vault (device j s) \<noteq> None \<and> pendingTransaction s \<noteq> None"
  proof -
    from h obtain vj ptx where vj: "vault (device j s) = Some vj" and p: "pendingTransaction s = Some ptx"
      by auto
    show ?thesis using approve_success(1,2) [OF vj p] by simp
  qed
  show ?thesis using signed failed hashes approved by blast
qed

lemma example_md_prepare:
  "prepare (example_env\<lparr>sign := sg, broadcastTx := bc\<rparr>) example_vault ''addrX'' (amount_value (Some ''0.001''))
     = Inr (''SenderAddr'', 1000000, ''payload-for-addrX'', [''hash-of-payload-for-addrX''])"
  by (simp add: prepare_def amountBaseUnits_def example_env_def amount_value_def)

text \<open>
  Claim C3 as stated fails: the simulated approval completes, with a transaction hash on
  display, even with an SDK whose \<^verbatim>\<open>sign\<close> always fails, so no signature was combined or
  verified; and the multi-device page broadcasts whatever \<^verbatim>\<open>sign\<close> returns, unchecked.
\<close>

theorem signing_completes_without_verification:
  "status (device device_a
     (approveTransaction (example_env\<lparr>sign := \<lambda>v c kp hs. Inl (Error ''no co-signer'')\<rparr>)
        ''k3j9x2ab'' ''p0q8w7zz'' device_b
        (initiateTransaction example_env 1700000000000 device_a (Some ''addrX'') (Some ''0.001'') example_ready)))
     = check_mark @ '' Tx: k3j9x2ab...p0q8w7zz''
   \<and> status (device device_b
     (approveTransaction (example_env\<lparr>sign := \<lambda>v c kp hs. Inl (Error ''no co-signer'')\<rparr>)
        ''k3j9x2ab'' ''p0q8w7zz'' device_b
        (initiateTransaction example_env 1700000000000 device_a (Some ''addrX'') (Some ''0.001'') example_ready)))
     = check_mark @ '' Transaction signed & sent!''
   \<and> md_txHash
     (sendTransaction
        (example_env\<lparr>sign := \<lambda>v c kp hs. Inr ''not-a-signature'',
                      broadcastTx := \<lambda>v c kp sg. Inr sg\<rparr>)
        (\<lambda>n. ''2'') [] (Some ''addrX'') (Some ''0.001'') example_md)
     = Some ''not-a-signature''
   \<and> md_status
     (sendTransaction
        (example_env\<lparr>sign := \<lambda>v c kp hs. Inr ''not-a-signature'',
                      broadcastTx := \<lambda>v c kp sg. Inr sg\<rparr>)
        (\<lambda>n. ''2'') [] (Some ''addrX'') (Some ''0.001'') example_md)
     = ''Transaction sent!''"
proof -
  note g = approve_success [OF example_pending_vault [of device_b 1700000000000] example_pending [of 1700000000000]]
  have i: "initiatorId device_b = device_a" by (simp add: initiatorId_def)
  have m1: "md_vault example_md = Some example_vault" and m2: "md_sdk example_md \<noteq> None"
    by (simp_all add: example_md_def)
  have x: "''addrX'' \<noteq> []" by simp
  let ?e = "example_env\<lparr>sign := \<lambda>v c kp hs. Inr ''not-a-signature'',
                      broadcastTx := \<lambda>v c kp sg. Inr sg\<rparr>"
  note b = send_begin_awaits [OF m1 m2 x example_md_prepare]
  have bc: "broadcastTx ?e example_vault ''Solana'' ''payload-for-addrX'' ''not-a-signature''
              = Inr ''not-a-signature''"
    by simp
  have mv: "md_vault (example_md\<lparr>md_loading := True, md_signingInProgress := True, md_step := step_signing,
                md_status := ''Waiting for QR code from SDK...'', md_error := None,
                md_qrCodeDataUrl := None, md_qrPayload := None, md_txHash := None,
                md_debugInfo := None\<rparr>) = Some example_vault"
    by (simp add: m1)
  note r = send_resume_signed [OF mv bc]
  have s: "sign ?e example_vault ''Solana'' ''payload-for-addrX'' [''hash-of-payload-for-addrX'']
             = Inr ''not-a-signature''" by simp
  have a1: "md_txHash (sendTransaction ?e (\<lambda>n. ''2'') [] (Some ''addrX'') (Some ''0.001'') example_md)
     = Some ''not-a-signature''"
    unfolding sendTransaction_def b by (simp add: s r)
  have a2: "md_status (sendTransaction ?e (\<lambda>n. ''2'') [] (Some ''addrX'') (Some ''0.001'') example_md)
     = ''Transaction sent!''"
    unfolding sendTransaction_def b by (simp add: s r)
  show ?thesis using g(1,2) [of _ "''k3j9x2ab''" "''p0q8w7zz''"] a1 a2 by (simp add: i)
qed


theorem signature_forwarded_unverified_witness:
  "md_txHash (sendTransaction example_env (\<lambda>n. ''2'') [DeviceJoined ''phone'' 2 2]
                (Some ''addrX'') (Some ''0.001'') example_md) = Some ''tx-1''
   \<and> md_status (sendTransaction example_env (\<lambda>n. ''2'') [DeviceJoined ''phone'' 2 2]
                (Some ''addrX'') (Some ''0.001'') example_md) = ''Transaction sent!''
   \<and> md_txHash (sendTransaction (example_env\<lparr>sign := \<lambda>v c kp hs. Inl (Error ''no co-signer'')\<rparr>)
                (\<lambda>n. ''2'') [] (Some ''addrX'') (Some ''0.001'') example_md) = None
   \<and> status (device device_a
       (approveTransaction example_env ''k3j9x2ab'' ''p0q8w7zz'' device_b
         (initiateTransaction example_env 1700000000000 device_a (Some ''addrX'') (Some ''0.001'') example_ready)))
       = check_mark @ '' Tx: k3j9x2ab...p0q8w7zz''"
proof -
  let ?s0 = "initiateTransaction example_env 1700000000000 device_a (Some ''addrX'') (Some ''0.001'') example_ready"
  have m1: "md_vault example_md = Some example_vault" and m2: "md_sdk example_md \<noteq> None"
    by (simp_all add: example_md_def)
  have x: "''addrX'' \<noteq> []" by simp
  have p1: "prepare example_env example_vault ''addrX'' (amount_value (Some ''0.001''))
     = Inr (''SenderAddr'', 1000000, ''payload-for-addrX'', [''hash-of-payload-for-addrX''])"
    by (simp add: prepare_def amountBaseUnits_def example_env_def amount_value_def)
  have p2: "prepare (example_env\<lparr>sign := \<lambda>v c kp hs. Inl (Error ''no co-signer'')\<rparr>) example_vault
       ''addrX'' (amount_value (Some ''0.001''))
     = Inr (''SenderAddr'', 1000000, ''payload-for-addrX'', [''hash-of-payload-for-addrX''])"
    by (simp add: prepare_def amountBaseUnits_def example_env_def amount_value_def)
  have sg: "sign example_env example_vault ''Solana'' ''payload-for-addrX'' [''hash-of-payload-for-addrX'']
              = Inr ''signature-from-sdk''
            \<and> broadcastTx example_env example_vault ''Solana'' ''payload-for-addrX'' ''signature-from-sdk''
              = Inr ''tx-1''"
    by (simp add: example_env_def)
  have h: "vault (device device_b ?s0) \<noteq> None \<and> pendingTransaction ?s0 \<noteq> None"
    by (simp add: example_pending_vault example_pending)
  have i: "initiatorId device_b = device_a" by (simp add: initiatorId_def)
  note t1 = signature_forwarded_unverified [OF m1 m2 x p1, where sg = "''signature-from-sdk''"
      and h = "''tx-1''" and sh = "\<lambda>n. ''2''" and evs = "[DeviceJoined ''phone'' 2 2]"
      and j = device_b and s = ?s0 and e' = example_env and ?r1.0 = "''k3j9x2ab''"
      and ?r2.0 = "''p0q8w7zz''"]
  note t2 = signature_forwarded_unverified [OF m1 m2 x p2, where err = "Error ''no co-signer''"
      and sh = "\<lambda>n. ''2''" and evs = "[]"]
  have a1: "md_txHash (sendTransaction example_env (\<lambda>n. ''2'') [DeviceJoined ''phone'' 2 2]
                (Some ''addrX'') (Some ''0.001'') example_md) = Some ''tx-1''"
    using t1 sg by blast
  have a2: "md_status (sendTransaction example_env (\<lambda>n. ''2'') [DeviceJoined ''phone'' 2 2]
                (Some ''addrX'') (Some ''0.001'') example_md) = ''Transaction sent!''"
    using t1 sg by blast
  have a3: "md_txHash (sendTransaction (example_env\<lparr>sign := \<lambda>v c kp hs. Inl (Error ''no co-signer'')\<rparr>)
                (\<lambda>n. ''2'') [] (Some ''addrX'') (Some ''0.001'') example_md) = None"
    using t2 by simp
  have a4: "status (device device_a (approveTransaction example_env ''k3j9x2ab'' ''p0q8w7zz'' device_b ?s0))
       = check_mark @ '' Tx: k3j9x2ab...p0q8w7zz''"
    using t1 h by (simp add: i)
  show ?thesis using a1 a2 a3 a4 by (simp only: simp_thms)
qed

lemma cancelSigning_effect:
  "md_step (cancelSigning m) = step_wallet"
  "md_status (cancelSigning m) = ''Wallet ready''"
  "md_loading (cancelSigning m) = False"
  "md_signingInProgress (cancelSigning m) = False"
  "md_qrPayload (cancelSigning m) = None"
  "md_qrCodeDataUrl (cancelSigning m) = None"
  "md_vault (cancelSigning m) = md_vault m"
  "md_sdk (cancelSigning m) = md_sdk m"
  "md_txHash (cancelSigning m) = md_txHash m"
  by (simp_all add: cancelSigning_def)

text \<open>
  Claim C6, as the pages implement it.  On the simulated page \<^verbatim>\<open>rejectTransaction\<close> sets
  both devices to \<^verbatim>\<open>Transaction rejected\<close>, not loading, and clears the pending
  transaction, the shared payload and its type; an \<^verbatim>\<open>initiateTransaction\<close> after it is
  accepted and creates a fresh request stamped with the new time, which differs from the
  rejected request whenever the clock has moved.  On the multi-device page
  \<^verbatim>\<open>cancelSigning\<close> resets the page to the wallet step and keeps vault and SDK, so a new
  \<^verbatim>\<open>sendTransaction\<close> passes its guard; it does not stop the \<^verbatim>\<open>sendTransaction\<close> that awaits
  the SDK: when that call's \<^verbatim>\<open>sign\<close> returns a signature afterwards, the transaction is
  broadcast and the page shows \<^verbatim>\<open>Transaction sent!\<close>.
\<close>

theorem reject_clears_but_cancelSigning_only_resets_page:
  assumes "vault (device i s) = Some v" and "toAddr \<noteq> []"
      and "prepare e v toAddr (amount_value a) = Inr (sa, u, kp, hs)"
      and "md_vault m = Some v'" and "broadcastTx e v' ''Solana'' kp' sg = Inr h"
  shows "(\<forall>d. status (device d (rejectTransaction s)) = ''Transaction rejected''
            \<and> loading (device d (rejectTransaction s)) = False)
       \<and> pendingTransaction (rejectTransaction s) = None
       \<and> sharedPayload (rejectTransaction s) = None
       \<and> sharedPayloadType (rejectTransaction s) = None
       \<and> pendingTransaction (initiateTransaction e now i (Some toAddr) a (rejectTransaction s))
           = Some \<lparr>fromDevice = i, toAddress = toAddr, amount = amount_value a, chain = ''Solana'',
                   request_signingPayload = \<lparr>sp_chain = ''Solana'', sp_messageHashes = hs,
                     sp_toAddress = toAddr, sp_amount = amount_value a, sp_timestamp = now\<rparr>\<rparr>
       \<and> sharedPayload (initiateTransaction e now i (Some toAddr) a (rejectTransaction s))
           = Some (signing_json \<lparr>sp_chain = ''Solana'', sp_messageHashes = hs,
                     sp_toAddress = toAddr, sp_amount = amount_value a, sp_timestamp = now\<rparr>)
       \<and> error (device i (initiateTransaction e now i (Some toAddr) a (rejectTransaction s))) = None
       \<and> (\<forall>old. pendingTransaction s = Some old \<and> sp_timestamp (request_signingPayload old) \<noteq> now \<longrightarrow>
             pendingTransaction (initiateTransaction e now i (Some toAddr) a (rejectTransaction s)) \<noteq> Some old)
       \<and> md_step (cancelSigning m) = step_wallet
       \<and> md_signingInProgress (cancelSigning m) = False
       \<and> md_qrPayload (cancelSigning m) = None
       \<and> md_vault (cancelSigning m) = md_vault m
       \<and> md_sdk (cancelSigning m) = md_sdk m
       \<and> md_txHash (send_resume e sa' kp' (Inr sg) (cancelSigning m)) = Some h
       \<and> md_status (send_resume e sa' kp' (Inr sg) (cancelSigning m)) = ''Transaction sent!''"
proof -
  have vr: "vault (device i (rejectTransaction s)) = Some v"
    using assms(1) by (simp add: reject_effect)
  note b = initiate_success [OF vr assms(2,3)]
  have vc: "md_vault (cancelSigning m) = Some v'"
    using assms(4) by (simp add: cancelSigning_effect)
  note r = send_resume_signed [OF vc assms(5)]
  have n: "\<forall>old. pendingTransaction s = Some old \<and> sp_timestamp (request_signingPayload old) \<noteq> now \<longrightarrow>
             pendingTransaction (initiateTransaction e now i (Some toAddr) a (rejectTransaction s)) \<noteq> Some old"
    by (auto simp: b)
  show ?thesis using n by (simp add: b r reject_effect cancelSigning_effect)
qed


text \<open>
  Claim C6 as stated fails on the multi-device page: a \<^verbatim>\<open>sendTransaction\<close> awaits the
  signature with its QR code on display and nobody joined, the user cancels, and when the
  SDK's \<^verbatim>\<open>sign\<close> later returns, the cancelled signing is broadcast all the same.
\<close>

theorem cancelSigning_does_not_abort_signing:
  "send_begin example_env (Some ''addrX'') (Some ''0.001'') example_md
     = Awaiting_sign example_vault ''addrX'' ''SenderAddr'' 1000000 ''payload-for-addrX''
         [''hash-of-payload-for-addrX''] example_md_signing
   \<and> md_qrCodeDataUrl
       (fold (on_sign_event example_env (\<lambda>n. ''2'') ''addrX'' 1000000 ''SenderAddr'')
          [QRCodeReady ''vultisig://sign'', QRCodeDrawn ''vultisig://sign''] example_md_signing)
       = Some ''data:image/png;vultisig://sign''
   \<and> md_signingInProgress
       (cancelSigning
          (fold (on_sign_event example_env (\<lambda>n. ''2'') ''addrX'' 1000000 ''SenderAddr'')
             [QRCodeReady ''vultisig://sign'', QRCodeDrawn ''vultisig://sign''] example_md_signing)) = False
   \<and> md_step
       (cancelSigning
          (fold (on_sign_event example_env (\<lambda>n. ''2'') ''addrX'' 1000000 ''SenderAddr'')
             [QRCodeReady ''vultisig://sign'', QRCodeDrawn ''vultisig://sign''] example_md_signing)) = step_wallet
   \<and> md_txHash
       (send_resume example_env ''SenderAddr'' ''payload-for-addrX''
          (sign example_env example_vault ''Solana'' ''payload-for-addrX'' [''hash-of-payload-for-addrX''])
          (cancelSigning
             (fold (on_sign_event example_env (\<lambda>n. ''2'') ''addrX'' 1000000 ''SenderAddr'')
                [QRCodeReady ''vultisig://sign'', QRCodeDrawn ''vultisig://sign''] example_md_signing)))
       = Some ''tx-1''
   \<and> md_status
       (send_resume example_env ''SenderAddr'' ''payload-for-addrX''
          (sign example_env example_vault ''Solana'' ''payload-for-addrX'' [''hash-of-payload-for-addrX''])
          (cancelSigning
             (fold (on_sign_event example_env (\<lambda>n. ''2'') ''addrX'' 1000000 ''SenderAddr'')
                [QRCodeReady ''vultisig://sign'', QRCodeDrawn ''vultisig://sign''] example_md_signing)))
       = ''Transaction sent!''"
proof -
  let ?m = "fold (on_sign_event example_env (\<lambda>n. ''2'') ''addrX'' 1000000 ''SenderAddr'')
             [QRCodeReady ''vultisig://sign'', QRCodeDrawn ''vultisig://sign''] example_md_signing"
  have m1: "md_vault example_md = Some example_vault" and m2: "md_sdk example_md \<noteq> None"
    by (simp_all add: example_md_def)
  have x: "''addrX'' \<noteq> []" by simp
  have p1: "prepare example_env example_vault ''addrX'' (amount_value (Some ''0.001''))
     = Inr (''SenderAddr'', 1000000, ''payload-for-addrX'', [''hash-of-payload-for-addrX''])"
    by (simp add: prepare_def amountBaseUnits_def example_env_def amount_value_def)
  have a: "send_begin example_env (Some ''addrX'') (Some ''0.001'') example_md
     = Awaiting_sign example_vault ''addrX'' ''SenderAddr'' 1000000 ''payload-for-addrX''
         [''hash-of-payload-for-addrX''] example_md_signing"
    unfolding example_md_signing_def by (rule send_begin_awaits [OF m1 m2 x p1])
  have q: "md_qrCodeDataUrl ?m = Some ''data:image/png;vultisig://sign''"
    by (simp add: example_env_def)
  have "md_vault ?m = md_vault example_md_signing"
    using fold_events_keep by blast
  then have v: "md_vault (cancelSigning ?m) = Some example_vault"
    by (simp only: cancelSigning_effect) (simp add: example_md_signing_def example_md_def)
  have sg: "sign example_env example_vault ''Solana'' ''payload-for-addrX'' [''hash-of-payload-for-addrX'']
              = Inr ''signature-from-sdk''"
    by (simp add: example_env_def)
  have bc: "broadcastTx example_env example_vault ''Solana'' ''payload-for-addrX'' ''signature-from-sdk''
              = Inr ''tx-1''"
    by (simp add: example_env_def)
  note r = send_resume_signed [OF v bc]
  show ?thesis
    unfolding sg using a q r(1,2) by (simp add: cancelSigning_effect)
qed

theorem reject_clears_but_cancelSigning_only_resets_page_witness:
  "pendingTransaction
     (rejectTransaction
        (initiateTransaction example_env 1700000000000 device_a (Some ''addrX'') (Some ''0.001'') example_ready))
     = None
   \<and> status (device device_a
     (rejectTransaction
        (initiateTransaction example_env 1700000000000 device_a (Some ''addrX'') (Some ''0.001'') example_ready)))
     = ''Transaction rejected''
   \<and> pendingTransaction
     (initiateTransaction example_env 1700000005000 device_a (Some ''addrX'') (Some ''0.001'')
       (rejectTransaction
         (initiateTransaction example_env 1700000000000 device_a (Some ''addrX'') (Some ''0.001'') example_ready)))
     = Some \<lparr>fromDevice = device_a, toAddress = ''addrX'', amount = ''0.001'', chain = ''Solana'',
             request_signingPayload = \<lparr>sp_chain = ''Solana'',
               sp_messageHashes = [''hash-of-payload-for-addrX''], sp_toAddress = ''addrX'',
               sp_amount = ''0.001'', sp_timestamp = 1700000005000\<rparr>\<rparr>
   \<and> pendingTransaction
     (initiateTransaction example_env 1700000005000 device_a (Some ''addrX'') (Some ''0.001'')
       (rejectTransaction
         (initiateTransaction example_env 1700000000000 device_a (Some ''addrX'') (Some ''0.001'') example_ready)))
     \<noteq> pendingTransaction
        (initiateTransaction example_env 1700000000000 device_a (Some ''addrX'') (Some ''0.001'') example_ready)
   \<and> md_txHash (send_resume example_env ''SenderAddr'' ''payload-for-addrX''
        (Inr ''signature-from-sdk'') (cancelSigning example_md_signing)) = Some ''tx-1''"
proof -
  let ?s0 = "initiateTransaction example_env 1700000000000 device_a (Some ''addrX'') (Some ''0.001'') example_ready"
  have d: "amount_value (Some ''0.001'') = ''0.001''" by (simp add: amount_value_def)
  have x: "''addrX'' \<noteq> []" by simp
  have p1: "prepare example_env example_vault ''addrX'' (amount_value (Some ''0.001''))
     = Inr (''SenderAddr'', 1000000, ''payload-for-addrX'', [''hash-of-payload-for-addrX''])"
    by (simp add: prepare_def amountBaseUnits_def example_env_def amount_value_def)
  have bc: "broadcastTx example_env example_vault ''Solana'' ''payload-for-addrX'' ''signature-from-sdk''
              = Inr ''tx-1''"
    by (simp add: example_env_def)
  have mv: "md_vault example_md_signing = Some example_vault"
    by (simp add: example_md_signing_def example_md_def)
  note t = reject_clears_but_cancelSigning_only_resets_page
      [OF example_pending_vault [of device_a 1700000000000] x p1 mv bc,
       where now = 1700000005000 and sa' = "''SenderAddr''"]
  have old: "pendingTransaction ?s0 = Some \<lparr>fromDevice = device_a, toAddress = ''addrX'', amount = ''0.001'',
             chain = ''Solana'', request_signingPayload = \<lparr>sp_chain = ''Solana'',
               sp_messageHashes = [''hash-of-payload-for-addrX''], sp_toAddress = ''addrX'',
               sp_amount = ''0.001'', sp_timestamp = 1700000000000\<rparr>\<rparr>"
    by (rule example_pending)
  from t have a1: "pendingTransaction (rejectTransaction ?s0) = None" by blast
  from t have a2: "status (device device_a (rejectTransaction ?s0)) = ''Transaction rejected''" by blast
  from t have a3: "pendingTransaction
     (initiateTransaction example_env 1700000005000 device_a (Some ''addrX'') (Some ''0.001'') (rejectTransaction ?s0))
     = Some \<lparr>fromDevice = device_a, toAddress = ''addrX'', amount = ''0.001'', chain = ''Solana'',
             request_signingPayload = \<lparr>sp_chain = ''Solana'',
               sp_messageHashes = [''hash-of-payload-for-addrX''], sp_toAddress = ''addrX'',
               sp_amount = ''0.001'', sp_timestamp = 1700000005000\<rparr>\<rparr>"
    by (simp add: d)
  have a4: "pendingTransaction
     (initiateTransaction example_env 1700000005000 device_a (Some ''addrX'') (Some ''0.001'') (rejectTransaction ?s0))
     \<noteq> pendingTransaction ?s0"
    unfolding a3 old by simp
  from t have a5: "md_txHash (send_resume example_env ''SenderAddr'' ''payload-for-addrX''
        (Inr ''signature-from-sdk'') (cancelSigning example_md_signing)) = Some ''tx-1''" by blast
  show ?thesis using a1 a2 a3 a4 a5 by (simp only: simp_thms)
qed

section \<open>Properties of deleting a vault\<close>






lemma Coordinator_deleteVault_twice:
  "Coordinator_deleteVault True p v (snd (Coordinator_deleteVault True p v st))
     = Coordinator_deleteVault True p v st"
  by (simp add: Coordinator_deleteVault_def KeyShareStore_delete_def VaultRegistry_remove_def)






section \<open>Properties of a ceremony and its artifacts\<close>




lemma run_world_append: "run_world w (xs @ ys) = run_world (run_world w xs) ys"
  by (simp add: run_world_def)






end
